theory Spec2Isabelle
  imports Main
begin

section \<open>Values, frames and errors\<close>

text \<open>
  JavaScript values as the two source files handle them: the results of \<open>JSON.parse\<close>
  (null, booleans, numbers, strings, arrays, objects), \<open>undefined\<close>, and the raw payload
  of a binary frame. Numbers are modelled as integers (the intervals and counters
  here are integral and far below \<open>2^53\<close>, where the doubles of JavaScript are exact). An object is an
  association list in insertion order with distinct keys.
\<close>

datatype jsval =
    JUndefined
  | JNull
  | JBool bool
  | JNum int
  | JStr string
  | JBytes "nat list"
  | JArr "jsval list"
  | JObj "(string \<times> jsval) list"

text \<open>\<open>obj[k] = v\<close> on an association list: overwrite in place, else append.\<close>

fun obj_set :: "string \<Rightarrow> 'a \<Rightarrow> (string \<times> 'a) list \<Rightarrow> (string \<times> 'a) list" where
  "obj_set k v [] = [(k, v)]"
| "obj_set k v ((k', v') # kvs) =
     (if k' = k then (k, v) # kvs else (k', v') # obj_set k v kvs)"

text \<open>Property read \<open>v.k\<close> of a non-null value: \<open>undefined\<close> when there is no such own property.\<close>

fun get_prop :: "jsval \<Rightarrow> string \<Rightarrow> jsval" where
  "get_prop (JObj kvs) k = (case map_of kvs k of Some v \<Rightarrow> v | None \<Rightarrow> JUndefined)"
| "get_prop v k = JUndefined"

text \<open>Decimal digits of a natural number, as \<open>String(n)\<close> prints an array index.\<close>

fun string_of_nat :: "nat \<Rightarrow> string" where
  "string_of_nat n =
     (if n < 10 then [char_of (48 + n)]
      else string_of_nat (n div 10) @ [char_of (48 + n mod 10)])"

definition string_of_int :: "int \<Rightarrow> string" where
  "string_of_int i = (if i < 0 then CHR ''-'' # string_of_nat (nat (- i)) else string_of_nat (nat i))"

fun join_strings :: "string \<Rightarrow> string list \<Rightarrow> string" where
  "join_strings sep [] = []"
| "join_strings sep [x] = x"
| "join_strings sep (x # y # ys) = x @ sep @ join_strings sep (y # ys)"

text \<open>
  \<open>String(v)\<close>, as a template literal and a property-key conversion compute it: an
  array joins its elements with commas, printing \<open>null\<close> and \<open>undefined\<close> elements
  as empty strings. A number is printed in decimal, which is what JavaScript prints
  for an integer of magnitude below \<open>10^21\<close>; the exponent form beyond that is not
  covered.
\<close>

fun to_js_string :: "jsval \<Rightarrow> string" where
  "to_js_string (JStr s) = s"
| "to_js_string JUndefined = ''undefined''"
| "to_js_string JNull = ''null''"
| "to_js_string (JBool b) = (if b then ''true'' else ''false'')"
| "to_js_string (JNum n) = string_of_int n"
| "to_js_string (JBytes bs) = ''[object ArrayBuffer]''"
| "to_js_string (JObj kvs) = ''[object Object]''"
| "to_js_string (JArr xs) =
     join_strings '',''
       (map (\<lambda>x. if x = JNull \<or> x = JUndefined then [] else to_js_string x) xs)"

text \<open>
  The own enumerable properties that an object spread \<open>{...v}\<close> copies: those of an
  object, the indexed elements of an array, the indexed characters of a string, and
  nothing for the other values.
\<close>

fun spread_props :: "jsval \<Rightarrow> (string \<times> jsval) list" where
  "spread_props (JObj kvs) = kvs"
| "spread_props (JArr xs) = zip (map string_of_nat [0..<length xs]) xs"
| "spread_props (JStr cs) = zip (map string_of_nat [0..<length cs]) (map (\<lambda>c. JStr [c]) cs)"
| "spread_props v = []"

text \<open>The object literal \<open>{...base, ...v}\<close>: the properties are assigned left to right.\<close>

definition spread_into :: "(string \<times> jsval) list \<Rightarrow> (string \<times> jsval) list \<Rightarrow> (string \<times> jsval) list" where
  "spread_into base kvs = foldl (\<lambda>acc (k, v). obj_set k v acc) base kvs"

text \<open>
  The handler tables are plain object literals \<open>{}\<close>, and the source tests membership
  with the \<open>in\<close> operator, which also finds the properties inherited from
  \<open>Object.prototype\<close>.
\<close>

definition object_prototype_keys :: "string list" where
  "object_prototype_keys =
     [''constructor'', ''__defineGetter__'', ''__defineSetter__'', ''hasOwnProperty'',
      ''__lookupGetter__'', ''__lookupSetter__'', ''isPrototypeOf'',
      ''propertyIsEnumerable'', ''toString'', ''valueOf'', ''__proto__'',
      ''toLocaleString'']"

definition has_property :: "(string \<rightharpoonup> 'h) \<Rightarrow> string \<Rightarrow> bool" where
  "has_property tbl k =
     (case tbl k of Some h \<Rightarrow> True | None \<Rightarrow> k \<in> set object_prototype_keys)"

text \<open>
  Calling an inherited member as if it were a handler, \<open>tbl[k](data)\<close>: \<open>__proto__\<close> is
  not a function, and the two accessor definers reject a missing second argument;
  the others return without touching the session.
\<close>

definition inherited_call_throws :: "string \<Rightarrow> bool" where
  "inherited_call_throws k \<longleftrightarrow> k \<in> {''__proto__'', ''__defineGetter__'', ''__defineSetter__''}"

text \<open>
  What a call can throw: \<open>Error\<close> with its message, or a \<open>TypeError\<close> of the
  runtime. \<open>NotModelled\<close> marks an input whose behaviour in the patch library is left
  outside this development.
\<close>

datatype error = Error string | TypeError | NotModelled

text \<open>
  An outbound frame: the text \<open>JSON.stringify({type, data})\<close>, kept as its two
  fields with the data as it was passed (the text itself omits members that are
  \<open>undefined\<close>), or raw bytes. An inbound message: a text whose JSON is an object with a
  string \<open>type\<close> (the wire format; \<open>data\<close> is \<open>JUndefined\<close> when absent), or raw
  bytes.
\<close>

datatype frame = TextFrame string jsval | BinaryFrame "nat list"

datatype message = TextMessage string jsval | BinaryMessage "nat list"

datatype ready_state = CONNECTING | OPEN | CLOSING | CLOSED

datatype notification =
    Info string
  | Success string
  | Warning string
  | RetryWarning string int
  | ErrorToast string
  | Loading string int

section \<open>The session (session.ts)\<close>

text \<open>
  A \<open>WebSocket\<close> object created by \<open>connect\<close>: its ready state, whether the four
  callbacks of the session are still attached to it, and the frames written to it.
\<close>

record socket =
  readyState :: ready_state
  attached :: bool
  written :: "frame list"

text \<open>A timer created by \<open>setTimeout\<close>: its delay and whether it is still pending.\<close>

record timer =
  delay :: int
  pending :: bool

text \<open>
  The fields of class \<open>Session\<close>, followed by the world it acts on: the sockets and
  timers it has created (addressed by index, \<open>ws\<close> and \<open>retryTimeout\<close> are references
  into them) and the logs of its calls to the notification sink (\<open>toast\<close> says whether
  one is configured), to the connection observer, to the registered handlers, to the file-save sink and
  to the console.
\<close>

record 'h session =
  url :: string
  label :: string
  ws :: "nat option"
  isConnected :: bool
  onConnectionChange :: bool
  minRetryInterval :: int
  maxRetryInterval :: int
  currentRetryInterval :: int
  toast :: bool
  eventHandlers :: "string \<rightharpoonup> 'h"
  initHandlers :: "string \<rightharpoonup> 'h"
  binaryHandler :: "'h option"
  binData :: jsval
  retryTimeout :: "nat option"
  autoReconnect :: bool
  sockets :: "socket list"
  timers :: "timer list"
  toasts :: "notification list"
  observed :: "bool list"
  calls :: "('h \<times> jsval) list"
  downloads :: "(jsval \<times> jsval) list"
  console :: "string list"

text \<open>The constructor; the defaults of the source are \<open>''Server''\<close>, no sink, 250 and 10000.\<close>

definition new_session :: "string \<Rightarrow> string \<Rightarrow> bool \<Rightarrow> int \<Rightarrow> int \<Rightarrow> bool \<Rightarrow> 'h session" where
  "new_session u l t mn mx obs =
     \<lparr> url = u, label = l, ws = None, isConnected = False, onConnectionChange = obs,
       minRetryInterval = mn, maxRetryInterval = mx, currentRetryInterval = mn,
       toast = t, eventHandlers = Map.empty, initHandlers = Map.empty,
       binaryHandler = None, binData = JNull, retryTimeout = None, autoReconnect = True,
       sockets = [], timers = [], toasts = [], observed = [], calls = [], downloads = [], console = [] \<rparr>"

text \<open>
  \<open>this.toast?.info(...)\<close> and its siblings: a call to the sink when there is one.
  \<open>if (this.onConnectionChange) this.onConnectionChange(b)\<close>: a call to the observer
  when there is one. \<open>console.log\<close> and \<open>console.error\<close>: a line on the console.
\<close>

definition notify :: "notification \<Rightarrow> 'h session \<Rightarrow> 'h session" where
  "notify n s = (if toast s then s\<lparr>toasts := toasts s @ [n]\<rparr> else s)"

definition observe :: "bool \<Rightarrow> 'h session \<Rightarrow> 'h session" where
  "observe b s = (if onConnectionChange s then s\<lparr>observed := observed s @ [b]\<rparr> else s)"

definition log :: "string \<Rightarrow> 'h session \<Rightarrow> 'h session" where
  "log m s = s\<lparr>console := console s @ [m]\<rparr>"

subsection \<open>The event registry\<close>

definition registerEvent :: "string \<Rightarrow> 'h \<Rightarrow> 'h session \<Rightarrow> error + 'h session" where
  "registerEvent event callback s =
     (if has_property (eventHandlers s) event
      then Inl (Error (''already subscribed to '' @ event))
      else Inr (s\<lparr>eventHandlers := (eventHandlers s)(event \<mapsto> callback)\<rparr>))"

definition deregisterEvent :: "string \<Rightarrow> 'h session \<Rightarrow> error + 'h session" where
  "deregisterEvent event s =
     (if \<not> has_property (eventHandlers s) event
      then Inl (Error (''not subscribed to '' @ event))
      else Inr (s\<lparr>eventHandlers := (eventHandlers s)(event := None)\<rparr>))"

definition registerInit :: "string \<Rightarrow> 'h \<Rightarrow> 'h session \<Rightarrow> error + 'h session" where
  "registerInit key callback s =
     (if has_property (initHandlers s) key
      then Inl (Error ''already registered'')
      else Inr (s\<lparr>initHandlers := (initHandlers s)(key \<mapsto> callback)\<rparr>))"

definition deregisterInit :: "string \<Rightarrow> 'h session \<Rightarrow> error + 'h session" where
  "deregisterInit key s =
     (if \<not> has_property (initHandlers s) key
      then Inl (Error ''not registered'')
      else Inr (s\<lparr>initHandlers := (initHandlers s)(key := None)\<rparr>))"

definition registerBinary :: "'h \<Rightarrow> 'h session \<Rightarrow> error + 'h session" where
  "registerBinary callback s =
     (if binaryHandler s \<noteq> None then Inl (Error ''already registered'')
      else Inr (s\<lparr>binaryHandler := Some callback\<rparr>))"

definition deregisterBinary :: "'h session \<Rightarrow> error + 'h session" where
  "deregisterBinary s =
     (if binaryHandler s = None then Inl (Error ''not registered'')
      else Inr (s\<lparr>binaryHandler := None\<rparr>))"

subsection \<open>Sending\<close>

text \<open>\<open>this.ws?.readyState === WebSocket.OPEN\<close>: there is a socket and it is open.\<close>

definition ws_open :: "'h session \<Rightarrow> bool" where
  "ws_open s =
     (case ws s of None \<Rightarrow> False
      | Some i \<Rightarrow> i < length (sockets s) \<and> readyState (sockets s ! i) = OPEN)"

text \<open>\<open>this.ws?.send(f)\<close>: one write on the current socket.\<close>

definition ws_write :: "frame \<Rightarrow> 'h session \<Rightarrow> 'h session" where
  "ws_write f s =
     (case ws s of None \<Rightarrow> s
      | Some i \<Rightarrow>
          if i < length (sockets s)
          then s\<lparr>sockets := (sockets s)[i := (sockets s ! i)\<lparr>written := written (sockets s ! i) @ [f]\<rparr>]\<rparr>
          else s)"

definition send :: "string \<Rightarrow> jsval \<Rightarrow> 'h session \<Rightarrow> 'h session" where
  "send event data s =
     (if \<not> ws_open s
      then notify (ErrorToast (label s @ '': Sending while not connected!'')) s
      else ws_write (TextFrame event data) s)"

definition sendBinary :: "string \<Rightarrow> jsval \<Rightarrow> nat list \<Rightarrow> 'h session \<Rightarrow> 'h session" where
  "sendBinary event metadata data s =
     (if \<not> ws_open s
      then notify (ErrorToast (label s @ '': Sending while not connected!'')) s
      else ws_write (BinaryFrame data)
             (ws_write (TextFrame ''_BIN_META''
                (JObj [(''type'', JStr event), (''metadata'', metadata)])) s))"

text \<open>All frames written to any socket of the session, and their number.\<close>

definition transport_writes :: "'h session \<Rightarrow> frame list" where
  "transport_writes s = concat (map written (sockets s))"

subsection \<open>Connecting, closing and retrying\<close>

text \<open>
  \<open>connect\<close> creates a socket, makes it the current one and attaches the four callbacks
  to it. It looks neither at the current socket nor at a pending retry timer.
\<close>

definition connect :: "'h session \<Rightarrow> 'h session" where
  "connect s =
     (let s1 = notify (Info (''Connecting to '' @ label s @ ''...'')) s
      in s1\<lparr>sockets := sockets s1 @ [\<lparr>readyState = CONNECTING, attached = True, written = []\<rparr>],
            ws := Some (length (sockets s1)),
            autoReconnect := True\<rparr>)"

text \<open>The \<open>onopen\<close> callback.\<close>

definition onopen :: "'h session \<Rightarrow> 'h session" where
  "onopen s =
     (let s1 = notify (Success (''Connected to '' @ label s @ ''!'')) s;
          s2 = observe True (s1\<lparr>isConnected := True\<rparr>)
      in s2\<lparr>currentRetryInterval := minRetryInterval s2\<rparr>)"

text \<open>
  The \<open>onclose\<close> callback. With auto-reconnect it creates a timer with the current
  interval as its delay, stores it in \<open>retryTimeout\<close>, and then doubles the interval up
  to the maximum.
\<close>

definition onclose :: "'h session \<Rightarrow> 'h session" where
  "onclose s =
     (let s1 = observe False (s\<lparr>isConnected := False\<rparr>)
      in if autoReconnect s1
         then
           let s2 = notify (RetryWarning (label s1) (currentRetryInterval s1)) s1;
               s3 = s2\<lparr>timers := timers s2 @ [\<lparr>delay = currentRetryInterval s2, pending = True\<rparr>],
                       retryTimeout := Some (length (timers s2))\<rparr>
           in s3\<lparr>currentRetryInterval :=
                   min (currentRetryInterval s3 * 2) (maxRetryInterval s3)\<rparr>
         else notify (Warning (''Disconnected from '' @ label s1 @ ''!'')) s1)"

text \<open>\<open>this.ws?.close()\<close>: a socket that is connecting or open starts closing.\<close>

definition ws_close :: "'h session \<Rightarrow> 'h session" where
  "ws_close s =
     (case ws s of None \<Rightarrow> s
      | Some i \<Rightarrow>
          if i < length (sockets s) \<and> readyState (sockets s ! i) \<in> {CONNECTING, OPEN}
          then s\<lparr>sockets := (sockets s)[i := (sockets s ! i)\<lparr>readyState := CLOSING\<rparr>]\<rparr>
          else s)"

text \<open>The \<open>onerror\<close> callback, with the printed form of the error event.\<close>

definition onerror :: "string \<Rightarrow> 'h session \<Rightarrow> 'h session" where
  "onerror err s =
     ws_close
       (notify (ErrorToast (label s @ '': Socket Error: '' @ err))
          (log (''Socket encountered error: '' @ err @ '' Closing socket'') s))"

definition disconnect :: "'h session \<Rightarrow> 'h session" where
  "disconnect s =
     (let s1 = ws_close (s\<lparr>autoReconnect := False\<rparr>);
          s2 = observe False s1;
          s3 = (case ws s2 of None \<Rightarrow> s2
                | Some i \<Rightarrow>
                    s2\<lparr>sockets := (if i < length (sockets s2)
                                    then (sockets s2)[i := (sockets s2 ! i)\<lparr>attached := False\<rparr>]
                                    else sockets s2),
                       ws := None\<rparr>)
      in case retryTimeout s3 of None \<Rightarrow> s3
         | Some h \<Rightarrow>
             s3\<lparr>timers := (if h < length (timers s3)
                            then (timers s3)[h := (timers s3 ! h)\<lparr>pending := False\<rparr>]
                            else timers s3),
                retryTimeout := None\<rparr>)"

text \<open>
  The callback given to \<open>setTimeout\<close>: it connects again unless the url is empty or
  \<open>isConnected\<close> is set.
\<close>

definition retry_callback :: "'h session \<Rightarrow> 'h session" where
  "retry_callback s = (if url s \<noteq> [] \<and> \<not> isConnected s then connect s else s)"

subsection \<open>Inbound dispatch\<close>

text \<open>
  \<open>this.eventHandlers[k](arg)\<close> after \<open>k in this.eventHandlers\<close> has held: a registered
  handler is invoked (recorded in \<open>calls\<close>; handlers are taken to return normally);
  otherwise the member inherited from \<open>Object.prototype\<close> is called.
\<close>

definition call_handler :: "string \<Rightarrow> jsval \<Rightarrow> 'h session \<Rightarrow> error + 'h session" where
  "call_handler k arg s =
     (case eventHandlers s k of
        Some h \<Rightarrow> Inr (s\<lparr>calls := calls s @ [(h, arg)]\<rparr>)
      | None \<Rightarrow> if inherited_call_throws k then Inl TypeError else Inr s)"

fun handleReceiveEvent :: "message \<Rightarrow> 'h session \<Rightarrow> error + 'h session" where
  "handleReceiveEvent (TextMessage type data) s =
     (if type = ''_DISCONNECT''
      then Inr (notify (Loading (label s @ '': '' @ to_js_string data) 10000000) (disconnect s))
      else if type = ''_DOWNLOAD''
      then (if data = JNull \<or> data = JUndefined then Inl TypeError
            else Inr (s\<lparr>downloads := downloads s @ [(get_prop data ''filename'', get_prop data ''data'')]\<rparr>))
      else if type = ''_BIN_META''
      then Inr ((if binData s \<noteq> JNull then log ''overwriting bytes metadata'' s else s)
                  \<lparr>binData := data\<rparr>)
      else if has_property (eventHandlers s) type
      then call_handler type data s
      else Inr (log (''unhandled event: '' @ type) s))"
| "handleReceiveEvent (BinaryMessage payload) s =
     (if binData s \<noteq> JNull
      then
        (if binData s = JUndefined then Inl TypeError
         else
           let target = to_js_string (get_prop (binData s) ''type'') in
           (case (if has_property (eventHandlers s) target
                  then call_handler target
                         (JObj (spread_into [(''data'', JBytes payload)]
                                  (spread_props (get_prop (binData s) ''metadata'')))) s
                  else Inr (log (''no handler for binary event: '' @ target) s)) of
              Inl e \<Rightarrow> Inl e
            | Inr s1 \<Rightarrow> Inr (s1\<lparr>binData := JNull\<rparr>)))
      else
        (case binaryHandler s of
           Some h \<Rightarrow> Inr (s\<lparr>calls := calls s @ [(h, JBytes payload)]\<rparr>)
         | None \<Rightarrow> Inr (log ''unhandled binary message'' s)))"

subsection \<open>Transport and timer events\<close>

text \<open>
  What the environment does to the session: a socket opens, closes, reports an error
  or delivers a message, and a pending timer fires. A callback runs only while it is
  attached to the socket of the event (\<open>disconnect\<close> detaches them).
\<close>

definition set_readyState :: "nat \<Rightarrow> ready_state \<Rightarrow> 'h session \<Rightarrow> 'h session" where
  "set_readyState i r s = s\<lparr>sockets := (sockets s)[i := (sockets s ! i)\<lparr>readyState := r\<rparr>]\<rparr>"

definition socket_opened :: "nat \<Rightarrow> 'h session \<Rightarrow> 'h session" where
  "socket_opened i s =
     (if i < length (sockets s) \<and> readyState (sockets s ! i) = CONNECTING
      then (if attached (sockets s ! i) then onopen (set_readyState i OPEN s)
            else set_readyState i OPEN s)
      else s)"

definition socket_closed :: "nat \<Rightarrow> 'h session \<Rightarrow> 'h session" where
  "socket_closed i s =
     (if i < length (sockets s) \<and> readyState (sockets s ! i) \<noteq> CLOSED
      then (if attached (sockets s ! i) then onclose (set_readyState i CLOSED s)
            else set_readyState i CLOSED s)
      else s)"

definition socket_error :: "nat \<Rightarrow> string \<Rightarrow> 'h session \<Rightarrow> 'h session" where
  "socket_error i err s =
     (if i < length (sockets s) \<and> attached (sockets s ! i) then onerror err s else s)"

definition socket_message :: "nat \<Rightarrow> message \<Rightarrow> 'h session \<Rightarrow> error + 'h session" where
  "socket_message i m s =
     (if i < length (sockets s) \<and> readyState (sockets s ! i) = OPEN \<and> attached (sockets s ! i)
      then handleReceiveEvent m s else Inr s)"

definition timer_fired :: "nat \<Rightarrow> 'h session \<Rightarrow> 'h session" where
  "timer_fired h s =
     (if h < length (timers s) \<and> pending (timers s ! h)
      then retry_callback (s\<lparr>timers := (timers s)[h := (timers s ! h)\<lparr>pending := False\<rparr>]\<rparr>)
      else s)"

text \<open>Everything that can happen to a session: a call of its interface or an event.\<close>

datatype 'h event =
    CallConnect
  | CallDisconnect
  | CallSend string jsval
  | CallSendBinary string jsval "nat list"
  | CallRegisterEvent string 'h
  | CallDeregisterEvent string
  | CallRegisterInit string 'h
  | CallDeregisterInit string
  | CallRegisterBinary 'h
  | CallDeregisterBinary
  | SocketOpened nat
  | SocketClosed nat
  | SocketError nat string
  | SocketMessage nat message
  | TimerFired nat

fun step :: "'h event \<Rightarrow> 'h session \<Rightarrow> error + 'h session" where
  "step CallConnect s = Inr (connect s)"
| "step CallDisconnect s = Inr (disconnect s)"
| "step (CallSend e d) s = Inr (send e d s)"
| "step (CallSendBinary e m d) s = Inr (sendBinary e m d s)"
| "step (CallRegisterEvent k h) s = registerEvent k h s"
| "step (CallDeregisterEvent k) s = deregisterEvent k s"
| "step (CallRegisterInit k h) s = registerInit k h s"
| "step (CallDeregisterInit k) s = deregisterInit k s"
| "step (CallRegisterBinary h) s = registerBinary h s"
| "step CallDeregisterBinary s = deregisterBinary s"
| "step (SocketOpened i) s = Inr (socket_opened i s)"
| "step (SocketClosed i) s = Inr (socket_closed i s)"
| "step (SocketError i err) s = Inr (socket_error i err s)"
| "step (SocketMessage i m) s = socket_message i m s"
| "step (TimerFired h) s = Inr (timer_fired h s)"

text \<open>A call that throws leaves the session as it was; the run goes on.\<close>

definition exec :: "'h event \<Rightarrow> 'h session \<Rightarrow> 'h session" where
  "exec e s = (case step e s of Inl err \<Rightarrow> s | Inr s' \<Rightarrow> s')"

definition run :: "'h event list \<Rightarrow> 'h session \<Rightarrow> 'h session" where
  "run es s = foldl (\<lambda>s e. exec e s) s es"

section \<open>The patch library used by the coordinator\<close>

text \<open>
  The coordinator imports \<open>applyReducer\<close> and \<open>deepClone\<close> from the package
  fast-json-patch. They are modelled here for the operations \<open>add\<close>, \<open>replace\<close> and
  \<open>remove\<close> on members of objects and elements of arrays, without validation (the
  way \<open>applyReducer\<close> calls \<open>applyOperation\<close>).
\<close>

text \<open>\<open>s.split(c)\<close> for a one-character separator.\<close>

fun split_on :: "char \<Rightarrow> string \<Rightarrow> string list" where
  "split_on c [] = [[]]"
| "split_on c (x # xs) =
     (if x = c then [] # split_on c xs
      else (case split_on c xs of [] \<Rightarrow> [[x]] | w # rest \<Rightarrow> (x # w) # rest))"

text \<open>Replace every occurrence of the two characters \<open>~d\<close> by \<open>r\<close>, left to right.\<close>

fun replace_tilde :: "char \<Rightarrow> char \<Rightarrow> string \<Rightarrow> string" where
  "replace_tilde d r (c1 # c2 # cs) =
     (if c1 = CHR ''~'' \<and> c2 = d then r # replace_tilde d r cs
      else c1 # replace_tilde d r (c2 # cs))"
| "replace_tilde d r cs = cs"

definition unescapePathComponent :: "string \<Rightarrow> string" where
  "unescapePathComponent p = replace_tilde CHR ''0'' CHR ''~'' (replace_tilde CHR ''1'' CHR ''/'' p)"

definition is_digit :: "char \<Rightarrow> bool" where
  "is_digit c \<longleftrightarrow> (48::nat) \<le> of_char c \<and> (of_char c :: nat) \<le> 57"

definition isInteger :: "string \<Rightarrow> bool" where
  "isInteger str \<longleftrightarrow> str \<noteq> [] \<and> list_all is_digit str"

definition nat_of_digits :: "string \<Rightarrow> nat" where
  "nat_of_digits str = foldl (\<lambda>n c. 10 * n + (of_char c - 48)) 0 str"

text \<open>
  The index that a path component denotes in an array; \<open>-\<close> is the end. The library
  converts a digit string with \<open>~~key\<close>, which is the number itself below \<open>2^31\<close>;
  larger digit strings, like components that are not digit strings, are left
  outside.
\<close>

definition array_index :: "jsval list \<Rightarrow> string \<Rightarrow> nat option" where
  "array_index xs k =
     (if k = ''-'' then Some (length xs)
      else if isInteger k \<and> nat_of_digits k < 2 ^ 31 then Some (nat_of_digits k) else None)"

definition objOps :: "string \<Rightarrow> jsval \<Rightarrow> (string \<times> jsval) list \<Rightarrow> string \<Rightarrow> error + jsval" where
  "objOps op v kvs k =
     (if op = ''add'' \<or> op = ''replace'' then Inr (JObj (obj_set k v kvs))
      else if op = ''remove'' then Inr (JObj (filter (\<lambda>kv. fst kv \<noteq> k) kvs))
      else if op \<in> {''move'', ''copy'', ''test'', ''_get''} \<or> op \<in> set object_prototype_keys
      then Inl NotModelled
      else Inl TypeError)"

definition arrOps :: "string \<Rightarrow> jsval \<Rightarrow> jsval list \<Rightarrow> nat \<Rightarrow> error + jsval" where
  "arrOps op v xs i =
     (if op = ''add'' then Inr (JArr (take i xs @ [v] @ drop i xs))
      else if op = ''replace''
      then (if i < length xs then Inr (JArr (xs[i := v]))
            else if i = length xs then Inr (JArr (xs @ [v]))
            else Inl NotModelled)
      else if op = ''remove'' then Inr (JArr (take i xs @ drop (Suc i) xs))
      else if op \<in> {''move'', ''copy'', ''test'', ''_get''} \<or> op \<in> set object_prototype_keys
      then Inl NotModelled
      else Inl TypeError)"

text \<open>
  The walk of \<open>applyOperation\<close> along the path components after the first. \<open>prev\<close> is
  the component before the current one. A component \<open>__proto__\<close>, or \<open>prototype\<close> after
  \<open>constructor\<close>, is refused. With no component left to read, the key is \<open>undefined\<close>.
  The operation tables are object literals too: an operation named like a member of
  \<open>Object.prototype\<close> calls that member, which is left outside, as are the
  operations \<open>move\<close>, \<open>copy\<close>, \<open>test\<close> and \<open>_get\<close>.
\<close>

definition banned_key :: "string \<Rightarrow> string \<Rightarrow> bool" where
  "banned_key prev k \<longleftrightarrow> k = ''__proto__'' \<or> (k = ''prototype'' \<and> prev = ''constructor'')"

definition apply_leaf :: "string \<Rightarrow> jsval \<Rightarrow> string \<Rightarrow> jsval \<Rightarrow> error + jsval" where
  "apply_leaf op v k obj =
     (case obj of
        JObj kvs \<Rightarrow> objOps op v kvs k
      | JArr xs \<Rightarrow> (case array_index xs k of Some i \<Rightarrow> arrOps op v xs i | None \<Rightarrow> Inl NotModelled)
      | JNull \<Rightarrow> Inl TypeError
      | JUndefined \<Rightarrow> Inl TypeError
      | _ \<Rightarrow> Inl NotModelled)"

fun apply_keys :: "string \<Rightarrow> jsval \<Rightarrow> string \<Rightarrow> string list \<Rightarrow> jsval \<Rightarrow> error + jsval" where
  "apply_keys op v prev [] obj = apply_leaf op v ''undefined'' obj"
| "apply_keys op v prev [k0] obj =
     (let k = unescapePathComponent k0
      in if banned_key prev k then Inl TypeError else apply_leaf op v k obj)"
| "apply_keys op v prev (k0 # k1 # ks) obj =
     (let k = unescapePathComponent k0
      in if banned_key prev k then Inl TypeError
         else
           (case obj of
              JObj kvs \<Rightarrow>
                (case apply_keys op v k0 (k1 # ks) (get_prop obj k) of
                   Inl e \<Rightarrow> Inl e
                 | Inr c \<Rightarrow> Inr (JObj (obj_set k c kvs)))
            | JArr xs \<Rightarrow>
                (case array_index xs k of
                   None \<Rightarrow> Inl NotModelled
                 | Some i \<Rightarrow>
                     if i < length xs
                     then (case apply_keys op v k0 (k1 # ks) (xs ! i) of
                             Inl e \<Rightarrow> Inl e
                           | Inr c \<Rightarrow> Inr (JArr (xs[i := c])))
                     else Inl TypeError)
            | JNull \<Rightarrow> Inl TypeError
            | JUndefined \<Rightarrow> Inl TypeError
            | _ \<Rightarrow> Inl TypeError))"

text \<open>
  \<open>applyReducer(document, operation)\<close>: the new document. The empty path addresses
  the document itself. Otherwise the walk starts at the second component of the
  split path, with the first one as the component before it.
\<close>

definition applyReducer :: "jsval \<Rightarrow> jsval \<Rightarrow> error + jsval" where
  "applyReducer document operation =
     (case (get_prop operation ''op'', get_prop operation ''path'') of
        (JStr op, JStr path) \<Rightarrow>
          if path = []
          then (if op = ''add'' \<or> op = ''replace'' then Inr (get_prop operation ''value'')
                else if op = ''remove'' then Inr JNull
                else if op \<in> {''move'', ''copy'', ''test'', ''_get''} then Inl NotModelled
                else Inr document)
          else apply_keys op (get_prop operation ''value'') (hd (split_on CHR ''/'' path))
                 (tl (split_on CHR ''/'' path)) document
      | _ \<Rightarrow> Inl NotModelled)"

text \<open>\<open>patch.reduce(applyReducer, init)\<close>: the operations in order, stopping at a throw.\<close>

fun reduce_patch :: "jsval list \<Rightarrow> jsval \<Rightarrow> error + jsval" where
  "reduce_patch [] doc = Inr doc"
| "reduce_patch (operation # ops) doc =
     (case applyReducer doc operation of
        Inl e \<Rightarrow> Inl e
      | Inr doc' \<Rightarrow> reduce_patch ops doc')"

text \<open>
  \<open>deepClone\<close>: \<open>undefined\<close> becomes \<open>null\<close>, an object goes through
  \<open>JSON.parse(JSON.stringify(...))\<close>, which drops the members whose value is
  \<open>undefined\<close>, turns \<open>undefined\<close> elements of arrays into \<open>null\<close> and a byte buffer
  into an empty object; any other value is returned as it is.
\<close>

fun json_roundtrip :: "jsval \<Rightarrow> jsval" where
  "json_roundtrip (JObj kvs) =
     JObj (map (\<lambda>kv. (fst kv, json_roundtrip (snd kv))) (filter (\<lambda>kv. snd kv \<noteq> JUndefined) kvs))"
| "json_roundtrip (JArr xs) = JArr (map json_roundtrip xs)"
| "json_roundtrip (JBytes bs) = JObj []"
| "json_roundtrip JUndefined = JNull"
| "json_roundtrip v = v"

definition deepClone :: "jsval \<Rightarrow> jsval" where
  "deepClone v = json_roundtrip v"

section \<open>The state sync coordinator (createSynced)\<close>

definition setEvent :: "string \<Rightarrow> string" where "setEvent k = ''_SET:'' @ k"
definition getEvent :: "string \<Rightarrow> string" where "getEvent k = ''_GET:'' @ k"
definition patchEvent :: "string \<Rightarrow> string" where "patchEvent k = ''_PATCH:'' @ k"
definition actionEvent :: "string \<Rightarrow> string" where "actionEvent k = ''_ACTION:'' @ k"
definition taskStartEvent :: "string \<Rightarrow> string" where "taskStartEvent k = ''_TASK_START:'' @ k"
definition taskCancelEvent :: "string \<Rightarrow> string" where "taskCancelEvent k = ''_TASK_CANCEL:'' @ k"

text \<open>
  The two capabilities a user reducer can invoke, and the effects they enqueue. A
  \<open>sync\<close> effect holds the patch list of the transition; a \<open>delegate\<close> effect the action
  to forward.
\<close>

datatype capability = SyncCall | DelegateCall jsval

datatype effect = SendPatchEffect "jsval list" | SendActionEffect jsval

text \<open>
  The user reducer as \<open>produceWithPatches\<close> (package immer) runs it: from the state
  and the action to the new state, the patches that immer reports, and the calls of
  \<open>sync\<close> and \<open>delegate\<close> in the order the reducer made them (\<open>DelegateCall JUndefined\<close>
  is \<open>delegate()\<close> without an argument).
\<close>

type_synonym synced_reducer = "jsval \<Rightarrow> jsval \<Rightarrow> jsval \<times> jsval list \<times> capability list"

definition create_effect :: "jsval \<Rightarrow> jsval list \<Rightarrow> capability \<Rightarrow> effect" where
  "create_effect action patch c =
     (case c of
        SyncCall \<Rightarrow> SendPatchEffect patch
      | DelegateCall actionOverride \<Rightarrow>
          SendActionEffect
            (if actionOverride = JUndefined \<or> actionOverride = JNull then action
             else actionOverride))"

definition wrappedReducer ::
  "string \<Rightarrow> synced_reducer option \<Rightarrow> jsval \<times> effect list \<Rightarrow> jsval \<Rightarrow> error + jsval \<times> effect list" where
  "wrappedReducer k syncedReducer se action =
     (if action = JNull \<or> action = JUndefined then Inl TypeError
      else if get_prop action ''type'' = JStr (setEvent k)
      then Inr (get_prop action ''data'', [])
      else if get_prop action ''type'' = JStr (patchEvent k)
      then (case get_prop action ''data'' of
              JArr patch \<Rightarrow>
                (case reduce_patch patch (deepClone (fst se)) of
                   Inl e \<Rightarrow> Inl e
                 | Inr newState \<Rightarrow> Inr (newState, []))
            | _ \<Rightarrow> Inl TypeError)
      else (case syncedReducer of
              None \<Rightarrow> Inr (fst se, [])
            | Some f \<Rightarrow>
                (case f (fst se) action of
                   (newState, patch, cs) \<Rightarrow> Inr (newState, map (create_effect action patch) cs))))"

text \<open>
  The conversion of one immer patch inside a \<open>sync\<close> effect: a path given as an array
  is joined with \<open>/\<close>, and a path that does not start with \<open>/\<close> gets one in front.
\<close>

definition normalize_path :: "jsval \<Rightarrow> error + jsval" where
  "normalize_path p =
     (case (case get_prop p ''path'' of
              JArr xs \<Rightarrow> JStr (join_strings ''/''
                          (map (\<lambda>x. if x = JNull \<or> x = JUndefined then [] else to_js_string x) xs))
            | v \<Rightarrow> v) of
        JStr path \<Rightarrow>
          (case p of
             JObj kvs \<Rightarrow>
               Inr (JObj (obj_set ''path''
                            (JStr (if take 1 path = ''/'' then path else ''/'' @ path)) kvs))
           | _ \<Rightarrow> Inl NotModelled)
      | _ \<Rightarrow> Inl TypeError)"

fun normalize_patch :: "jsval list \<Rightarrow> error + jsval list" where
  "normalize_patch [] = Inr []"
| "normalize_patch (p # ps) =
     (case normalize_path p of
        Inl e \<Rightarrow> Inl e
      | Inr p' \<Rightarrow> (case normalize_patch ps of Inl e \<Rightarrow> Inl e | Inr ps' \<Rightarrow> Inr (p' # ps')))"

text \<open>
  The handlers that the coordinator registers with the session, by the line of the
  activation effect that creates them.
\<close>

datatype handler = GetHandler | SetHandler | PatchHandler | ActionHandler | InitHandler

text \<open>
  One coordinator over its session. \<open>state\<close> and \<open>effects\<close> are the pair held by
  \<open>useReducer\<close>. The activation effect has the dependencies \<open>[session, key]\<close>, so the
  closures it registers keep the \<open>state\<close> of the render in which it ran:
  \<open>registeredState\<close>.
\<close>

record synced =
  session :: "handler session"
  key :: string
  syncedReducer :: "synced_reducer option"
  initialState :: jsval
  sendOnInit :: bool
  state :: jsval
  effects :: "effect list"
  registeredState :: jsval

definition createSynced ::
  "string \<Rightarrow> synced_reducer option \<Rightarrow> jsval \<Rightarrow> handler session \<Rightarrow> bool \<Rightarrow> synced" where
  "createSynced k r init sess onInit =
     \<lparr> session = sess, key = k, syncedReducer = r, initialState = init, sendOnInit = onInit,
       state = init, effects = [], registeredState = init \<rparr>"

definition on_session :: "(handler session \<Rightarrow> handler session) \<Rightarrow> synced \<Rightarrow> synced" where
  "on_session f c = c\<lparr>session := f (session c)\<rparr>"

definition fetchRemoteState :: "synced \<Rightarrow> synced" where
  "fetchRemoteState c = on_session (send (getEvent (key c)) (JObj [])) c"

definition sendState :: "jsval \<Rightarrow> synced \<Rightarrow> synced" where
  "sendState newState c = on_session (send (setEvent (key c)) newState) c"

definition sendPatch :: "jsval \<Rightarrow> synced \<Rightarrow> synced" where
  "sendPatch patch c = on_session (send (patchEvent (key c)) patch) c"

definition sendAction :: "jsval \<Rightarrow> synced \<Rightarrow> synced" where
  "sendAction action c = on_session (send (actionEvent (key c)) action) c"

definition startTask :: "jsval \<Rightarrow> synced \<Rightarrow> synced" where
  "startTask task c = on_session (send (taskStartEvent (key c)) task) c"

definition cancelTask :: "jsval \<Rightarrow> synced \<Rightarrow> synced" where
  "cancelTask task c = on_session (send (taskCancelEvent (key c)) task) c"

definition sendBinaryAction :: "jsval \<Rightarrow> nat list \<Rightarrow> synced \<Rightarrow> synced" where
  "sendBinaryAction action data c = on_session (sendBinary (actionEvent (key c)) action data) c"

text \<open>Running the queued effects after the commit, in order.\<close>

fun run_effects :: "effect list \<Rightarrow> synced \<Rightarrow> error + synced" where
  "run_effects [] c = Inr c"
| "run_effects (SendPatchEffect patch # fs) c =
     (if patch = [] then run_effects fs c
      else (case normalize_patch patch of
              Inl e \<Rightarrow> Inl e
            | Inr patch' \<Rightarrow> run_effects fs (sendPatch (JArr patch') c)))"
| "run_effects (SendActionEffect action # fs) c = run_effects fs (sendAction action c)"

text \<open>
  \<open>dispatch\<close>: the reducer computes the next pair, the pair is committed, and the
  effect that follows every render runs the queue and empties it.
\<close>

definition dispatch :: "jsval \<Rightarrow> synced \<Rightarrow> error + synced" where
  "dispatch action c =
     (case wrappedReducer (key c) (syncedReducer c) (state c, effects c) action of
        Inl e \<Rightarrow> Inl e
      | Inr (newState, fs) \<Rightarrow>
          (case run_effects fs (c\<lparr>state := newState, effects := fs\<rparr>) of
             Inl e \<Rightarrow> Inl e
           | Inr c' \<Rightarrow> Inr (c'\<lparr>effects := []\<rparr>)))"

definition setState :: "jsval \<Rightarrow> synced \<Rightarrow> error + synced" where
  "setState newState c = dispatch (JObj [(''type'', JStr (setEvent (key c))), (''data'', newState)]) c"

definition patchState :: "jsval \<Rightarrow> synced \<Rightarrow> error + synced" where
  "patchState patch c = dispatch (JObj [(''type'', JStr (patchEvent (key c))), (''data'', patch)]) c"

definition actionState :: "jsval \<Rightarrow> synced \<Rightarrow> error + synced" where
  "actionState action c = dispatch action c"

text \<open>
  The activation effect: four registrations (and the init hook when configured), the
  closures keeping the current \<open>state\<close>; a registration that throws ends it. Its
  cleanup deregisters in the same order.
\<close>

definition bind_session ::
  "(handler session \<Rightarrow> error + handler session) \<Rightarrow> error + synced \<Rightarrow> error + synced" where
  "bind_session f r =
     (case r of
        Inl e \<Rightarrow> Inl e
      | Inr c \<Rightarrow> (case f (session c) of Inl e \<Rightarrow> Inl e | Inr s \<Rightarrow> Inr (c\<lparr>session := s\<rparr>)))"

definition activate :: "synced \<Rightarrow> error + synced" where
  "activate c =
     (let r4 =
        bind_session (registerEvent (actionEvent (key c)) ActionHandler)
          (bind_session (registerEvent (patchEvent (key c)) PatchHandler)
             (bind_session (registerEvent (setEvent (key c)) SetHandler)
                (bind_session (registerEvent (getEvent (key c)) GetHandler)
                   (Inr (c\<lparr>registeredState := state c\<rparr>)))))
      in if sendOnInit c then bind_session (registerInit (key c) InitHandler) r4 else r4)"

definition deactivate :: "synced \<Rightarrow> error + synced" where
  "deactivate c =
     (let r4 =
        bind_session (deregisterEvent (actionEvent (key c)))
          (bind_session (deregisterEvent (patchEvent (key c)))
             (bind_session (deregisterEvent (setEvent (key c)))
                (bind_session (deregisterEvent (getEvent (key c))) (Inr c))))
      in if sendOnInit c then bind_session (deregisterInit (key c)) r4 else r4)"

text \<open>What each registered closure does when the session invokes it.\<close>

fun run_handler :: "handler \<Rightarrow> jsval \<Rightarrow> synced \<Rightarrow> error + synced" where
  "run_handler GetHandler arg c = Inr (sendState (registeredState c) c)"
| "run_handler SetHandler arg c = setState arg c"
| "run_handler PatchHandler arg c = patchState arg c"
| "run_handler ActionHandler arg c = actionState arg c"
| "run_handler InitHandler arg c = Inr (sendState (registeredState c) c)"

text \<open>
  A message arrives on socket \<open>i\<close> of the session: the session dispatches it, and the
  handler it invoked, if any, runs.
\<close>

definition receive :: "nat \<Rightarrow> message \<Rightarrow> synced \<Rightarrow> error + synced" where
  "receive i m c =
     (case socket_message i m (session c) of
        Inl e \<Rightarrow> Inl e
      | Inr s \<Rightarrow>
          (case drop (length (calls (session c))) (calls s) of
             [] \<Rightarrow> Inr (c\<lparr>session := s\<rparr>)
           | (h, arg) # others \<Rightarrow> run_handler h arg (c\<lparr>session := s\<rparr>)))"

subsection \<open>Generated accessors\<close>

text \<open>\<open>toUpperCase\<close> on a character of the ASCII range.\<close>

definition toUpperCase :: "char \<Rightarrow> char" where
  "toUpperCase ch =
     (if (97::nat) \<le> of_char ch \<and> (of_char ch :: nat) \<le> 122
      then char_of ((of_char ch :: nat) - 32) else ch)"

definition upper :: "string \<Rightarrow> string" where
  "upper attr = (case attr of [] \<Rightarrow> [] | ch # cs \<Rightarrow> toUpperCase ch # cs)"

datatype accessor = Setter string | Syncer string

text \<open>
  The table built by the \<open>reduce\<close> over \<open>Object.keys(initialState)\<close>: for every
  attribute a setter and a syncer under their generated names.
\<close>

definition setters :: "jsval \<Rightarrow> (string \<times> accessor) list" where
  "setters init =
     foldl (\<lambda>acc attr.
              obj_set (''sync'' @ upper attr) (Syncer attr)
                (obj_set (''set'' @ upper attr) (Setter attr) acc))
       [] (map fst (spread_props init))"

definition replace_patch :: "string \<Rightarrow> jsval \<Rightarrow> jsval" where
  "replace_patch attr newValue =
     JArr [JObj [(''op'', JStr ''replace''), (''path'', JStr (''/'' @ attr)), (''value'', newValue)]]"

text \<open>
  Calling the accessor exposed under \<open>name\<close>. The setter dispatches the patch locally;
  the syncer also sends it (the send is issued before the queued reducer runs, so
  when the local patch throws the frame has been written all the same; the result
  is then only the error).
  \<open>Object.keys\<close> throws on an initial state that is \<open>null\<close> or \<open>undefined\<close>, and
  calling a name that the table lacks is a call of \<open>undefined\<close>.
\<close>

definition call_accessor :: "string \<Rightarrow> jsval \<Rightarrow> synced \<Rightarrow> error + synced" where
  "call_accessor name newValue c =
     (if initialState c = JNull \<or> initialState c = JUndefined then Inl TypeError
      else
        (case map_of (setters (initialState c)) name of
           None \<Rightarrow> Inl TypeError
         | Some (Setter attr) \<Rightarrow> patchState (replace_patch attr newValue) c
         | Some (Syncer attr) \<Rightarrow>
             patchState (replace_patch attr newValue) (sendPatch (replace_patch attr newValue) c)))"

section \<open>Scenarios\<close>

text \<open>
  A connection attempt fails: the current socket closes. The retry: the timer that
  \<open>retryTimeout\<close> refers to fires. \<open>failed_attempts k\<close> is \<open>k\<close> failures in a row, each
  but the first after the retry that the failure before it scheduled.
\<close>

definition current_socket_closes :: "'h session \<Rightarrow> 'h session" where
  "current_socket_closes s = (case ws s of None \<Rightarrow> s | Some i \<Rightarrow> socket_closed i s)"

definition retry_timer_fires :: "'h session \<Rightarrow> 'h session" where
  "retry_timer_fires s = (case retryTimeout s of None \<Rightarrow> s | Some h \<Rightarrow> timer_fired h s)"

fun failed_attempts :: "nat \<Rightarrow> 'h session \<Rightarrow> 'h session" where
  "failed_attempts 0 s = s"
| "failed_attempts (Suc k) s = current_socket_closes (retry_timer_fires (failed_attempts k s))"

text \<open>The retry interval stays between its bounds.\<close>

definition interval_ok :: "'h session \<Rightarrow> bool" where
  "interval_ok s \<longleftrightarrow>
     minRetryInterval s \<le> currentRetryInterval s \<and> currentRetryInterval s \<le> maxRetryInterval s"

definition intervals :: "'h session \<Rightarrow> int \<times> int \<times> int" where
  "intervals s = (minRetryInterval s, maxRetryInterval s, currentRetryInterval s)"

text \<open>Operations on a coordinator in sequence; the first throw ends the sequence.\<close>

fun perform :: "(synced \<Rightarrow> error + synced) list \<Rightarrow> synced \<Rightarrow> error + synced" where
  "perform [] c = Inr c"
| "perform (f # fs) c = (case f c of Inl e \<Rightarrow> Inl e | Inr c' \<Rightarrow> perform fs c')"

text \<open>What a sequence of operations leaves: the frames written, and the state.\<close>

definition sent_frames :: "error + synced \<Rightarrow> frame list option" where
  "sent_frames r = (case r of Inl e \<Rightarrow> None | Inr c \<Rightarrow> Some (transport_writes (session c)))"

definition state_after :: "error + synced \<Rightarrow> jsval option" where
  "state_after r = (case r of Inl e \<Rightarrow> None | Inr c \<Rightarrow> Some (state c))"

text \<open>
  A session with a notification sink whose first socket has opened, and the
  coordinator of the key \<open>counter\<close> with the initial state \<open>{count: 0}\<close> over it.
\<close>

definition connected_session :: "handler session" where
  "connected_session = socket_opened 0 (connect (new_session ''ws://h'' ''Server'' True 250 10000 False))"

definition counter :: synced where
  "counter = createSynced ''counter'' None (JObj [(''count'', JNum 0)]) connected_session False"

text \<open>No timer of the session is pending.\<close>

definition no_pending_timer :: "'h session \<Rightarrow> bool" where
  "no_pending_timer s = list_all (\<lambda>t. \<not> pending t) (timers s)"

text \<open>Auto-reconnect is off and no timer is pending: nothing can start a retry.\<close>

definition quiet :: "'h session \<Rightarrow> bool" where
  "quiet s \<longleftrightarrow> \<not> autoReconnect s \<and> no_pending_timer s"

text \<open>
  The state in which a manual reconnect races with a retry timer: the first attempt
  has failed and scheduled timer 0, and \<open>connect\<close> has been called by hand, so
  socket 1 is connecting while the timer is pending.
\<close>

definition after_first_close :: "nat session" where
  "after_first_close =
     connect (socket_closed 0 (connect (new_session ''ws://h'' ''Server'' False 250 10000 False)))"

section \<open>Properties of the event registry\<close>

lemma has_property_own: "tbl k = Some h \<Longrightarrow> has_property tbl k"
  by (simp add: has_property_def dom_def)

lemma has_property_fresh:
  "tbl k = None \<Longrightarrow> k \<notin> set object_prototype_keys \<Longrightarrow> \<not> has_property tbl k"
  by (simp add: has_property_def dom_def)

lemma registerEvent_fresh:
  "\<not> has_property (eventHandlers s) k \<Longrightarrow>
   registerEvent k h s = Inr (s\<lparr>eventHandlers := (eventHandlers s)(k \<mapsto> h)\<rparr>)"
  by (simp add: registerEvent_def)

lemma registerEvent_occupied:
  "has_property (eventHandlers s) k \<Longrightarrow>
   registerEvent k h s = Inl (Error (''already subscribed to '' @ k))"
  by (simp add: registerEvent_def)

lemma deregisterEvent_occupied:
  "has_property (eventHandlers s) k \<Longrightarrow>
   deregisterEvent k s = Inr (s\<lparr>eventHandlers := (eventHandlers s)(k := None)\<rparr>)"
  by (simp add: deregisterEvent_def)

lemma deregisterEvent_fresh:
  "\<not> has_property (eventHandlers s) k \<Longrightarrow>
   deregisterEvent k s = Inl (Error (''not subscribed to '' @ k))"
  by (simp add: deregisterEvent_def)

text \<open>
  For a key that \<open>Object.prototype\<close> does not define, the registry keeps the
  uniqueness contract: a second registration and a deregistration without a
  registration throw, and register, deregister, register succeeds.
\<close>

lemma registry_contract_own_keys:
  assumes "k \<notin> set object_prototype_keys" and "eventHandlers s k = None"
  shows "deregisterEvent k s = Inl (Error (''not subscribed to '' @ k))"
    and "registerEvent k h s = Inr (s\<lparr>eventHandlers := (eventHandlers s)(k \<mapsto> h)\<rparr>)"
    and "registerEvent k h' (s\<lparr>eventHandlers := (eventHandlers s)(k \<mapsto> h)\<rparr>)
           = Inl (Error (''already subscribed to '' @ k))"
    and "deregisterEvent k (s\<lparr>eventHandlers := (eventHandlers s)(k \<mapsto> h)\<rparr>) = Inr s"
  using assms
  by (simp_all add: registerEvent_def deregisterEvent_def has_property_def dom_def fun_upd_idem)

text \<open>
  Claim C4, at the key \<open>toString\<close>. On a session that has registered nothing, the
  first \<open>registerEvent\<close> under this key throws "already subscribed", because the \<open>in\<close>
  test finds the member inherited from \<open>Object.prototype\<close>; and \<open>deregisterEvent\<close>
  under it, with no registration before, does not throw and returns the session
  unchanged. So the sequence register, deregister, register fails at its first step
  for this key.
\<close>

theorem registry_inherited_key:
  "registerEvent ''toString'' h (new_session u l t mn mx obs)
     = Inl (Error ''already subscribed to toString'')
   \<and> deregisterEvent ''toString'' (new_session u l t mn mx obs)
     = Inr (new_session u l t mn mx obs)"
  by (simp add: registerEvent_def deregisterEvent_def has_property_def
      object_prototype_keys_def new_session_def)

section \<open>Properties of sending\<close>

lemma transport_writes_toasts [simp]:
  "transport_writes (s\<lparr>toasts := ts\<rparr>) = transport_writes s"
  by (simp add: transport_writes_def)

text \<open>
  Claim C5. While the current socket is absent or not open, \<open>send\<close> and \<open>sendBinary\<close>
  do nothing but report to the notification sink: they write nothing to any socket
  and, on a session that has a sink, make exactly one \<open>error\<close> call to it and change
  nothing else, so nothing is buffered and nothing is scheduled.
\<close>

theorem send_while_not_connected:
  assumes "\<not> ws_open s"
  shows "send e d s = notify (ErrorToast (label s @ '': Sending while not connected!'')) s
       \<and> sendBinary e m b s = notify (ErrorToast (label s @ '': Sending while not connected!'')) s
       \<and> transport_writes (send e d s) = transport_writes s
       \<and> transport_writes (sendBinary e m b s) = transport_writes s
       \<and> (toast s \<longrightarrow>
            send e d s = s\<lparr>toasts := toasts s @ [ErrorToast (label s @ '': Sending while not connected!'')]\<rparr>
          \<and> sendBinary e m b s = s\<lparr>toasts := toasts s @ [ErrorToast (label s @ '': Sending while not connected!'')]\<rparr>
          \<and> length (toasts (send e d s)) = length (toasts s) + 1
          \<and> length (toasts (sendBinary e m b s)) = length (toasts s) + 1)"
  using assms by (simp add: send_def sendBinary_def notify_def)

theorem send_while_not_connected_witness:
  "\<not> ws_open (new_session ''ws://h'' ''Server'' True 250 10000 False :: nat session)
   \<and> toast (new_session ''ws://h'' ''Server'' True 250 10000 False :: nat session)
   \<and> toasts (send ''ping'' JNull (new_session ''ws://h'' ''Server'' True 250 10000 False :: nat session))
       = [ErrorToast ''Server: Sending while not connected!'']
   \<and> transport_writes (sendBinary ''ping'' JNull [1, 2]
        (new_session ''ws://h'' ''Server'' True 250 10000 False :: nat session)) = []"
  using send_while_not_connected
    [of "new_session ''ws://h'' ''Server'' True 250 10000 False :: nat session"
        "''ping''" JNull JNull "[1, 2]"]
  by (simp add: ws_open_def new_session_def transport_writes_def notify_def)

section \<open>Properties of the retry interval\<close>

lemma intervals_notify [simp]: "intervals (notify n s) = intervals s"
  by (simp add: intervals_def notify_def)
lemma intervals_observe [simp]: "intervals (observe b s) = intervals s"
  by (simp add: intervals_def observe_def)
lemma intervals_log [simp]: "intervals (log m s) = intervals s"
  by (simp add: intervals_def log_def)
lemma intervals_ws_close [simp]: "intervals (ws_close s) = intervals s"
  by (simp add: intervals_def ws_close_def split: option.splits)
lemma intervals_ws_write [simp]: "intervals (ws_write f s) = intervals s"
  by (simp add: intervals_def ws_write_def split: option.splits)
lemma intervals_set_readyState [simp]: "intervals (set_readyState i r s) = intervals s"
  by (simp add: intervals_def set_readyState_def)
lemma intervals_connect [simp]: "intervals (connect s) = intervals s"
  by (simp add: intervals_def connect_def Let_def notify_def)
lemma intervals_disconnect [simp]: "intervals (disconnect s) = intervals s"
  by (simp add: intervals_def disconnect_def Let_def observe_def ws_close_def split: option.splits)
lemma intervals_send [simp]: "intervals (send e d s) = intervals s"
  by (simp add: send_def)
lemma intervals_sendBinary [simp]: "intervals (sendBinary e m d s) = intervals s"
  by (simp add: sendBinary_def)
lemma intervals_onerror [simp]: "intervals (onerror err s) = intervals s"
  by (simp add: onerror_def)

lemma intervals_onopen: "intervals (onopen s) = (minRetryInterval s, maxRetryInterval s, minRetryInterval s)"
  by (simp add: intervals_def onopen_def Let_def notify_def observe_def)

lemma intervals_onclose: "intervals (onclose s) =
   (minRetryInterval s, maxRetryInterval s,
    if autoReconnect s then min (currentRetryInterval s * 2) (maxRetryInterval s) else currentRetryInterval s)"
  by (simp add: intervals_def onclose_def Let_def notify_def observe_def)

lemma intervals_upd [simp]:
  "intervals (s\<lparr>binData := bd\<rparr>) = intervals s"
  "intervals (s\<lparr>downloads := dl\<rparr>) = intervals s"
  "intervals (s\<lparr>calls := cl\<rparr>) = intervals s"
  "intervals (s\<lparr>timers := tm\<rparr>) = intervals s"
  "intervals (s\<lparr>eventHandlers := eh\<rparr>) = intervals s"
  "intervals (s\<lparr>initHandlers := ih\<rparr>) = intervals s"
  "intervals (s\<lparr>binaryHandler := bh\<rparr>) = intervals s"
  by (simp_all add: intervals_def)

lemma intervals_call_handler: "call_handler k a s = Inr s' \<Longrightarrow> intervals s' = intervals s"
  by (auto simp: call_handler_def split: option.splits if_splits)

lemma intervals_handle: "handleReceiveEvent m s = Inr s' \<Longrightarrow> intervals s' = intervals s"
  by (cases m) (auto simp: Let_def dest: intervals_call_handler
     split: if_splits option.splits sum.splits)

lemma intervals_step_other:
  "step e s = Inr s' \<Longrightarrow> (\<forall>i. e \<noteq> SocketOpened i) \<Longrightarrow> (\<forall>i. e \<noteq> SocketClosed i) \<Longrightarrow> (\<forall>i. e \<noteq> TimerFired i)
    \<Longrightarrow> intervals s' = intervals s"
  by (cases e) (auto simp: registerEvent_def deregisterEvent_def registerInit_def deregisterInit_def
      registerBinary_def deregisterBinary_def socket_error_def socket_message_def
      dest: intervals_handle split: if_splits)

lemma interval_ok_intervals: "interval_ok s \<longleftrightarrow> (case intervals s of (mn, mx, c) \<Rightarrow> mn \<le> c \<and> c \<le> mx)"
  by (simp add: interval_ok_def intervals_def)

lemma intervals_timer_fired [simp]: "intervals (timer_fired h s) = intervals s"
  by (simp add: timer_fired_def retry_callback_def)

lemma intervals_socket_opened:
  "intervals (socket_opened i s) = intervals s \<or>
   intervals (socket_opened i s) = (minRetryInterval s, maxRetryInterval s, minRetryInterval s)"
  by (simp add: socket_opened_def intervals_onopen) (simp add: intervals_def set_readyState_def)

lemma intervals_socket_closed:
  "intervals (socket_closed i s) = intervals s \<or>
   intervals (socket_closed i s) =
     (minRetryInterval s, maxRetryInterval s, min (currentRetryInterval s * 2) (maxRetryInterval s))"
  by (simp add: socket_closed_def intervals_onclose) (simp add: intervals_def set_readyState_def)

lemma intervals_exec_other:
  assumes "\<forall>i. e \<noteq> SocketOpened i" "\<forall>i. e \<noteq> SocketClosed i" "\<forall>i. e \<noteq> TimerFired i"
  shows "intervals (exec e s) = intervals s"
proof (cases "step e s")
  case (Inl err)
  then show ?thesis by (simp add: exec_def)
next
  case (Inr s')
  then show ?thesis using intervals_step_other[OF Inr assms] by (simp add: exec_def)
qed

lemma intervals_exec:
  "intervals (exec e s) = intervals s
   \<or> intervals (exec e s) = (minRetryInterval s, maxRetryInterval s, minRetryInterval s)
   \<or> intervals (exec e s) =
       (minRetryInterval s, maxRetryInterval s, min (currentRetryInterval s * 2) (maxRetryInterval s))"
proof (cases e)
  case (SocketOpened i)
  then show ?thesis using intervals_socket_opened[of i s] by (auto simp: exec_def)
next
  case (SocketClosed i)
  then show ?thesis using intervals_socket_closed[of i s] by (auto simp: exec_def)
next
  case (TimerFired h)
  then show ?thesis by (simp add: exec_def)
qed (simp_all add: intervals_exec_other)

lemma interval_ok_exec:
  assumes "interval_ok s" "0 \<le> minRetryInterval s"
  shows "interval_ok (exec e s) \<and> minRetryInterval (exec e s) = minRetryInterval s \<and> maxRetryInterval (exec e s) = maxRetryInterval s"
  using assms intervals_exec[of e s]
  by (auto simp: interval_ok_def intervals_def)

lemma interval_ok_run:
  "interval_ok s \<Longrightarrow> 0 \<le> minRetryInterval s \<Longrightarrow>
   interval_ok (run es s) \<and> minRetryInterval (run es s) = minRetryInterval s \<and> maxRetryInterval (run es s) = maxRetryInterval s"
proof (induction es arbitrary: s)
  case Nil
  then show ?case by (simp add: run_def)
next
  case (Cons e es)
  have a: "interval_ok (exec e s)" "minRetryInterval (exec e s) = minRetryInterval s"
     "maxRetryInterval (exec e s) = maxRetryInterval s"
    using interval_ok_exec[OF Cons.prems] by simp_all
  have "run (e # es) s = run es (exec e s)" by (simp add: run_def)
  then show ?case using Cons.IH[of "exec e s"] a Cons.prems by simp
qed

lemma retry_then_fail:
  assumes "url s \<noteq> []" "\<not> isConnected s" "retryTimeout s = Some h" "h < length (timers s)"
    "pending (timers s ! h)"
  shows "timers (current_socket_closes (retry_timer_fires s))
           = (timers s)[h := (timers s ! h)\<lparr>pending := False\<rparr>] @ [\<lparr>delay = currentRetryInterval s, pending = True\<rparr>]"
    and "retryTimeout (current_socket_closes (retry_timer_fires s)) = Some (length (timers s))"
    and "url (current_socket_closes (retry_timer_fires s)) = url s"
    and "\<not> isConnected (current_socket_closes (retry_timer_fires s))"
    and "intervals (current_socket_closes (retry_timer_fires s))
           = (minRetryInterval s, maxRetryInterval s, min (currentRetryInterval s * 2) (maxRetryInterval s))"
    and "length (sockets (current_socket_closes (retry_timer_fires s))) = Suc (length (sockets s))"
  using assms
  by (simp_all add: current_socket_closes_def retry_timer_fires_def timer_fired_def retry_callback_def
      connect_def socket_closed_def onclose_def set_readyState_def notify_def observe_def Let_def
      intervals_def nth_append)

lemma first_failure:
  "timers (failed_attempts (Suc 0) (connect (new_session u l t mn mx obs))) = [\<lparr>delay = mn, pending = True\<rparr>]"
  "retryTimeout (failed_attempts (Suc 0) (connect (new_session u l t mn mx obs))) = Some 0"
  "url (failed_attempts (Suc 0) (connect (new_session u l t mn mx obs))) = u"
  "\<not> isConnected (failed_attempts (Suc 0) (connect (new_session u l t mn mx obs)))"
  "intervals (failed_attempts (Suc 0) (connect (new_session u l t mn mx obs))) = (mn, mx, min (mn * 2) mx)"
  by (simp_all add: current_socket_closes_def retry_timer_fires_def timer_fired_def retry_callback_def
      connect_def socket_closed_def onclose_def set_readyState_def notify_def observe_def Let_def
      intervals_def nth_append new_session_def)

lemma doubling: "0 \<le> mn \<Longrightarrow> mn \<le> mx \<Longrightarrow> min (min (mn * 2 ^ k) mx * 2) mx = min (mn * 2 ^ Suc k) (mx::int)"
  by (auto simp: min_def)

lemma failed_attempts_state:
  fixes s :: "'h session"
  assumes "u \<noteq> []" "0 \<le> mn" "mn \<le> mx"
  assumes s_def: "s = failed_attempts (Suc k) (connect (new_session u l t mn mx obs))"
  shows "length (timers s) = Suc k \<and> retryTimeout s = Some k
       \<and> timers s ! k = \<lparr>delay = min (mn * 2 ^ k) mx, pending = True\<rparr>
       \<and> url s = u \<and> \<not> isConnected s
       \<and> intervals s = (mn, mx, min (mn * 2 ^ Suc k) mx)"
  unfolding s_def
proof (induction k)
  case 0
  show ?case using assms(2,3)
    by (simp add: first_failure del: failed_attempts.simps)
next
  case (Suc k)
  let ?p = "failed_attempts (Suc k) (connect (new_session u l t mn mx obs)) :: 'h session"
  have p: "url ?p \<noteq> []" "\<not> isConnected ?p" "retryTimeout ?p = Some k" "k < length (timers ?p)"
    "pending (timers ?p ! k)"
    using Suc assms(1) by (simp_all del: failed_attempts.simps)
  have c: "currentRetryInterval ?p = min (mn * 2 ^ Suc k) mx" "minRetryInterval ?p = mn" "maxRetryInterval ?p = mx"
    using Suc by (simp_all add: intervals_def del: failed_attempts.simps)
  have e: "(failed_attempts (Suc (Suc k)) (connect (new_session u l t mn mx obs)) :: 'h session)
      = current_socket_closes (retry_timer_fires ?p)" by simp
  show ?case unfolding e
    using retry_then_fail[OF p] Suc c doubling[OF assms(2,3), of "Suc k"]
    by (simp add: nth_append del: failed_attempts.simps power_Suc)
qed

lemma retry_then_open:
  assumes "url s \<noteq> []" "\<not> isConnected s" "retryTimeout s = Some h" "h < length (timers s)"
    "pending (timers s ! h)"
  shows "currentRetryInterval (socket_opened (length (sockets s)) (retry_timer_fires s)) = minRetryInterval s"
    and "isConnected (socket_opened (length (sockets s)) (retry_timer_fires s))"
    and "ws (retry_timer_fires s) = Some (length (sockets s))"
  using assms
  by (simp_all add: retry_timer_fires_def timer_fired_def retry_callback_def
      connect_def socket_opened_def onopen_def set_readyState_def notify_def observe_def Let_def
      nth_append)

lemma onopen_resets: "currentRetryInterval (onopen s) = minRetryInterval s"
  by (simp add: onopen_def Let_def notify_def observe_def)

text \<open>
  Claim C1, with the exponent the code has. With the bounds 250 and 10000 and a
  non-empty url, the timer that the \<open>(k+1)\<close>-th failed attempt in a row schedules
  for the next retry has the delay \<open>min (250 * 2^k) 10000\<close>: 250 after the first
  failure, 500 after the second. The stored interval, which the failure after that
  will use, is then \<open>min (250 * 2^(k+1)) 10000\<close>. When the retry's socket opens, and
  whenever \<open>onopen\<close> runs, the stored interval is 250 again. In every run of calls
  and events from the new session the stored interval stays between the bounds.
\<close>

theorem backoff_law:
  fixes s :: "'h session"
  assumes "u \<noteq> []"
    and "s = failed_attempts (Suc k) (connect (new_session u l t 250 10000 obs))"
  shows "retryTimeout s = Some k
       \<and> timers s ! k = \<lparr>delay = min (250 * 2 ^ k) 10000, pending = True\<rparr>
       \<and> currentRetryInterval s = min (250 * 2 ^ Suc k) 10000
       \<and> currentRetryInterval (socket_opened (length (sockets s)) (retry_timer_fires s)) = 250
       \<and> currentRetryInterval (onopen s) = 250
       \<and> (\<forall>es. interval_ok (run es (new_session u l t 250 10000 obs :: 'h session)))"
proof -
  have st: "length (timers s) = Suc k \<and> retryTimeout s = Some k
       \<and> timers s ! k = \<lparr>delay = min (250 * 2 ^ k) 10000, pending = True\<rparr>
       \<and> url s = u \<and> \<not> isConnected s
       \<and> intervals s = (250, 10000, min (250 * 2 ^ Suc k) 10000)"
    using failed_attempts_state[OF assms(1) _ _ assms(2)] by simp
  have p: "url s \<noteq> []" "\<not> isConnected s" "retryTimeout s = Some k" "k < length (timers s)"
    "pending (timers s ! k)"
    using st assms(1) by simp_all
  have mn: "minRetryInterval s = 250" using st by (simp add: intervals_def)
  have inv: "\<forall>es. interval_ok (run es (new_session u l t 250 10000 obs :: 'h session))"
  proof
    fix es :: "'h event list"
    have "interval_ok (new_session u l t 250 10000 obs :: 'h session)"
      "0 \<le> minRetryInterval (new_session u l t 250 10000 obs :: 'h session)"
      by (simp_all add: interval_ok_def new_session_def)
    then show "interval_ok (run es (new_session u l t 250 10000 obs :: 'h session))"
      using interval_ok_run by blast
  qed
  show ?thesis
    using st retry_then_open(1)[OF p] mn inv onopen_resets[of s]
    by (simp add: intervals_def)
qed

theorem backoff_law_witness:
  "''ws://h'' \<noteq> []
   \<and> retryTimeout (failed_attempts (Suc 2) (connect (new_session ''ws://h'' ''Server'' False 250 10000 False :: nat session))) = Some 2
   \<and> delay (timers (failed_attempts (Suc 2) (connect (new_session ''ws://h'' ''Server'' False 250 10000 False :: nat session))) ! 2) = 1000
   \<and> currentRetryInterval (failed_attempts (Suc 2) (connect (new_session ''ws://h'' ''Server'' False 250 10000 False :: nat session))) = 2000
   \<and> interval_ok (run [CallConnect, SocketClosed 0] (new_session ''ws://h'' ''Server'' False 250 10000 False :: nat session))"
  using backoff_law[OF _ refl, of "''ws://h''" 2 "''Server''" False False, where 'h = nat]
  by simp

text \<open>
  Claim C1 as stated fails at \<open>k = 1\<close>: the retry scheduled by the first failure has
  the delay 250, not \<open>min (250 * 2^1) 10000 = 500\<close>.
\<close>

theorem backoff_law_counterexample:
  "retryTimeout (failed_attempts (Suc 0) (connect (new_session ''ws://h'' ''Server'' False 250 10000 False :: nat session))) = Some 0
   \<and> delay (timers (failed_attempts (Suc 0) (connect (new_session ''ws://h'' ''Server'' False 250 10000 False :: nat session))) ! 0)
      \<noteq> min (250 * 2 ^ 1) 10000"
  by (simp add: first_failure del: failed_attempts.simps)

section \<open>Properties of the retry timer\<close>

text \<open>
  Claim C9, with the guard the callback has. A pending retry timer that fires tests,
  at that moment, that the url is not empty and that \<open>isConnected\<close> is not set. If
  \<open>isConnected\<close> is set or the url is empty, the fire changes nothing but the timer: no
  \<open>connect\<close> call, no new socket, the current socket and the auto-reconnect flag as
  they were. Otherwise it calls \<open>connect\<close> once: one connecting socket is appended and
  becomes the current one, whatever sockets exist already. A timer that fires right
  after an attached socket has opened finds \<open>isConnected\<close> set and creates no socket.
\<close>

theorem retry_guard:
  fixes s :: "'h session"
  assumes "h < length (timers s)" and "pending (timers s ! h)"
  shows "timer_fired h s =
           (if url s \<noteq> [] \<and> \<not> isConnected s
            then connect (s\<lparr>timers := (timers s)[h := (timers s ! h)\<lparr>pending := False\<rparr>]\<rparr>)
            else s\<lparr>timers := (timers s)[h := (timers s ! h)\<lparr>pending := False\<rparr>]\<rparr>)
       \<and> (isConnected s \<or> url s = [] \<longrightarrow>
            sockets (timer_fired h s) = sockets s \<and> ws (timer_fired h s) = ws s
            \<and> autoReconnect (timer_fired h s) = autoReconnect s)
       \<and> (\<not> isConnected s \<and> url s \<noteq> [] \<longrightarrow>
            sockets (timer_fired h s)
              = sockets s @ [\<lparr>readyState = CONNECTING, attached = True, written = []\<rparr>]
            \<and> ws (timer_fired h s) = Some (length (sockets s)))
       \<and> (i < length (sockets s) \<and> attached (sockets s ! i) \<and> readyState (sockets s ! i) = CONNECTING
              \<longrightarrow> isConnected (socket_opened i s)
                \<and> sockets (timer_fired h (socket_opened i s)) = sockets (socket_opened i s))"
  using assms
  by (auto simp: timer_fired_def retry_callback_def connect_def Let_def notify_def
      socket_opened_def onopen_def observe_def set_readyState_def)

lemma after_first_close_eq:
  "after_first_close =
     \<lparr> url = ''ws://h'', label = ''Server'', ws = Some 1, isConnected = False, onConnectionChange = False,
       minRetryInterval = 250, maxRetryInterval = 10000, currentRetryInterval = 500,
       toast = False, eventHandlers = Map.empty, initHandlers = Map.empty,
       binaryHandler = None, binData = JNull, retryTimeout = Some 0, autoReconnect = True,
       sockets = [\<lparr>readyState = CLOSED, attached = True, written = []\<rparr>,
                  \<lparr>readyState = CONNECTING, attached = True, written = []\<rparr>],
       timers = [\<lparr>delay = 250, pending = True\<rparr>],
       toasts = [], observed = [], calls = [], downloads = [], console = [] \<rparr>"
  by (simp add: after_first_close_def connect_def socket_closed_def onclose_def set_readyState_def
      notify_def observe_def Let_def new_session_def)

text \<open>
  Three fires of timer 0: after the manual reconnect has opened (no socket is
  created); after it has opened and closed again during the wait (\<open>isConnected\<close> is
  not set any more, and a third socket is created); and with an empty url (no socket
  is created).
\<close>

theorem retry_guard_witness:
  "0 < length (timers after_first_close) \<and> pending (timers after_first_close ! 0)
   \<and> length (sockets (timer_fired 0 (socket_opened 1 after_first_close))) = 2
   \<and> 0 < length (timers (socket_closed 1 (socket_opened 1 after_first_close)))
   \<and> pending (timers (socket_closed 1 (socket_opened 1 after_first_close)) ! 0)
   \<and> \<not> isConnected (socket_closed 1 (socket_opened 1 after_first_close))
   \<and> length (sockets (timer_fired 0 (socket_closed 1 (socket_opened 1 after_first_close)))) = 3
   \<and> sockets (timer_fired 0 (after_first_close\<lparr>url := []\<rparr>)) = sockets after_first_close"
  using retry_guard[of 0 after_first_close 1]
    retry_guard[of 0 "socket_closed 1 (socket_opened 1 after_first_close)" 1]
    retry_guard[of 0 "after_first_close\<lparr>url := []\<rparr>" 1]
  by (simp add: after_first_close_eq socket_opened_def socket_closed_def onopen_def onclose_def
      set_readyState_def notify_def observe_def Let_def connect_def)

text \<open>
  Claim C9 as stated fails for a manual reconnect that has not opened yet: after a
  failed attempt has scheduled timer 0, \<open>connect\<close> is called by hand (socket 1,
  connecting), the timer fires, and its callback creates socket 2, a second
  connection attempt next to the first.
\<close>

theorem retry_guard_counterexample:
  "length (sockets (connect (socket_closed 0 (connect (new_session ''ws://h'' ''Server'' False 250 10000 False :: nat session))))) = 2
   \<and> length (sockets (timer_fired 0
        (connect (socket_closed 0 (connect (new_session ''ws://h'' ''Server'' False 250 10000 False :: nat session)))))) = 3
   \<and> map readyState (sockets (timer_fired 0
        (connect (socket_closed 0 (connect (new_session ''ws://h'' ''Server'' False 250 10000 False :: nat session))))))
       = [CLOSED, CONNECTING, CONNECTING]"
  by (simp add: connect_def socket_closed_def onclose_def set_readyState_def notify_def observe_def Let_def
      new_session_def timer_fired_def retry_callback_def nth_append)

section \<open>Properties of the inbound dispatch\<close>

lemma map_of_obj_set: "map_of (obj_set k v kvs) = (map_of kvs)(k \<mapsto> v)"
  by (induction kvs) (auto simp: fun_eq_iff)

lemma keys_obj_set: "fst ` set (obj_set k v kvs) = insert k (fst ` set kvs)"
proof -
  have "fst ` set (obj_set k v kvs) = dom (map_of (obj_set k v kvs))"
    by (simp add: dom_map_of_conv_image_fst)
  also have "\<dots> = insert k (dom (map_of kvs))" by (simp add: map_of_obj_set)
  finally show ?thesis by (simp add: dom_map_of_conv_image_fst)
qed

lemma distinct_obj_set: "distinct (map fst kvs) \<Longrightarrow> distinct (map fst (obj_set k v kvs))"
  by (induction kvs) (auto simp: keys_obj_set)

lemma set_obj_set:
  "distinct (map fst kvs) \<Longrightarrow>
   set (obj_set k v kvs) = insert (k, v) {kv \<in> set kvs. fst kv \<noteq> k}"
proof (induction kvs)
  case Nil
  then show ?case by simp
next
  case (Cons a kvs)
  obtain k' v' where a: "a = (k', v')" by (cases a)
  have nk: "\<And>w. (k', w) \<notin> set kvs" using Cons.prems by (force simp: a)
  show ?case
  proof (cases "k' = k")
    case True
    then show ?thesis using nk by (auto simp: a)
  next
    case False
    then show ?thesis using Cons by (auto simp: a)
  qed
qed

lemma distinct_spread_into: "distinct (map fst base) \<Longrightarrow> distinct (map fst (spread_into base kvs))"
  unfolding spread_into_def
  by (induction kvs arbitrary: base) (auto simp: distinct_obj_set)

lemma map_of_spread_into: "map_of (spread_into base kvs) = map_of base ++ map_of (rev kvs)"
  unfolding spread_into_def
proof (induction kvs arbitrary: base)
  case Nil
  then show ?case by simp
next
  case (Cons kv kvs)
  obtain k v where kv: "kv = (k, v)" by (cases kv)
  show ?case
    by (simp add: kv Cons.IH map_of_obj_set map_add_def fun_eq_iff split: option.splits)
qed

lemma keys_spread_into: "fst ` set (spread_into base kvs) = fst ` set base \<union> fst ` set kvs"
proof -
  have "fst ` set (spread_into base kvs) = dom (map_of (spread_into base kvs))"
    by (simp add: dom_map_of_conv_image_fst)
  also have "\<dots> = dom (map_of base) \<union> dom (map_of (rev kvs))"
    by (simp add: map_of_spread_into Un_commute)
  finally show ?thesis by (simp add: dom_map_of_conv_image_fst)
qed

lemma set_spread_into:
  "distinct (map fst base) \<Longrightarrow>
   set (spread_into base kvs) \<subseteq> {kv \<in> set base. fst kv \<notin> fst ` set kvs} \<union> set kvs"
  unfolding spread_into_def
proof (induction kvs arbitrary: base)
  case Nil
  then show ?case by auto
next
  case (Cons kv kvs)
  obtain k v where kv: "kv = (k, v)" by (cases kv)
  have d: "distinct (map fst (obj_set k v base))" using Cons.prems by (rule distinct_obj_set)
  show ?case
    using Cons.IH[OF d] set_obj_set[OF Cons.prems, of k v]
    by (auto simp: kv)
qed

text \<open>
  Claim C3. On any session with a handler registered under \<open>T\<close>, the text frame
  \<open>_BIN_META\<close> with data \<open>{type: "T", metadata: {id: 1}}\<close> fills the pending slot and
  invokes nothing, and the binary frame \<open>B\<close> after it invokes that handler once, with
  \<open>{data: B, id: 1}\<close>, and clears the slot. A binary frame that finds the slot empty
  and no catch-all handler invokes no handler: it is logged and dropped.
\<close>

theorem binary_pairing:
  fixes s :: "'h session"
  shows "(eventHandlers s ''T'' = Some h \<longrightarrow>
            handleReceiveEvent
                (TextMessage ''_BIN_META'' (JObj [(''type'', JStr ''T''), (''metadata'', JObj [(''id'', JNum 1)])])) s
              = Inr ((if binData s \<noteq> JNull then log ''overwriting bytes metadata'' s else s)
                       \<lparr>binData := JObj [(''type'', JStr ''T''), (''metadata'', JObj [(''id'', JNum 1)])]\<rparr>)
          \<and> handleReceiveEvent (BinaryMessage B)
                ((if binData s \<noteq> JNull then log ''overwriting bytes metadata'' s else s)
                       \<lparr>binData := JObj [(''type'', JStr ''T''), (''metadata'', JObj [(''id'', JNum 1)])]\<rparr>)
              = Inr ((if binData s \<noteq> JNull then log ''overwriting bytes metadata'' s else s)
                       \<lparr>calls := calls s @ [(h, JObj [(''data'', JBytes B), (''id'', JNum 1)])],
                        binData := JNull\<rparr>))
       \<and> (binData s = JNull \<and> binaryHandler s = None \<longrightarrow>
            handleReceiveEvent (BinaryMessage B) s = Inr (log ''unhandled binary message'' s)
          \<and> calls (log ''unhandled binary message'' s) = calls s)"
  by (simp add: has_property_def dom_def call_handler_def spread_into_def log_def)

theorem binary_pairing_witness:
  "eventHandlers ((new_session ''ws://h'' ''Server'' False 250 10000 False :: nat session)
       \<lparr>eventHandlers := [''T'' \<mapsto> 7]\<rparr>) ''T'' = Some 7
   \<and> binData (new_session ''ws://h'' ''Server'' False 250 10000 False :: nat session) = JNull
   \<and> binaryHandler (new_session ''ws://h'' ''Server'' False 250 10000 False :: nat session) = None
   \<and> handleReceiveEvent (BinaryMessage [1, 2, 3])
        ((new_session ''ws://h'' ''Server'' False 250 10000 False :: nat session)
           \<lparr>eventHandlers := [''T'' \<mapsto> 7],
            binData := JObj [(''type'', JStr ''T''), (''metadata'', JObj [(''id'', JNum 1)])]\<rparr>)
       = Inr ((new_session ''ws://h'' ''Server'' False 250 10000 False :: nat session)
           \<lparr>eventHandlers := [''T'' \<mapsto> 7],
            calls := [(7, JObj [(''data'', JBytes [1, 2, 3]), (''id'', JNum 1)])],
            binData := JNull\<rparr>)
   \<and> calls (log ''unhandled binary message'' (new_session ''ws://h'' ''Server'' False 250 10000 False :: nat session)) = []"
  using binary_pairing[of "(new_session ''ws://h'' ''Server'' False 250 10000 False :: nat session)
       \<lparr>eventHandlers := [''T'' \<mapsto> 7]\<rparr>" 7 "[1, 2, 3]"]
    binary_pairing[of "new_session ''ws://h'' ''Server'' False 250 10000 False :: nat session" 7 "[1, 2, 3]"]
  by (simp add: new_session_def)

text \<open>
  A binary frame arrives while the slot is filled with a string target type \<open>t\<close>. If
  a handler is registered under \<open>t\<close> and the metadata is an object with a key
  \<open>data\<close>, the handler is invoked with the spread of the metadata over
  \<open>{data: payload}\<close>, whose \<open>data\<close> member is the one of the metadata and whose
  members are all members of the metadata, so the payload is not among them; the
  slot is cleared. If the \<open>in\<close> test finds nothing under \<open>t\<close>, the frame is logged and
  dropped whether or not a catch-all handler is registered, and the slot is cleared.
\<close>

lemma binary_metadata_spread:
  fixes s :: "'h session"
  assumes "get_prop (binData s) ''type'' = JStr t"
  shows "(eventHandlers s t = Some h \<and> get_prop (binData s) ''metadata'' = JObj m
             \<and> ''data'' \<in> fst ` set m \<longrightarrow>
            handleReceiveEvent (BinaryMessage B) s
              = Inr (s\<lparr>calls := calls s @ [(h, JObj (spread_into [(''data'', JBytes B)] m))],
                       binData := JNull\<rparr>)
          \<and> map_of (spread_into [(''data'', JBytes B)] m) ''data'' = map_of (rev m) ''data''
          \<and> map_of (rev m) ''data'' \<noteq> None
          \<and> set (spread_into [(''data'', JBytes B)] m) \<subseteq> set m)
       \<and> (\<not> has_property (eventHandlers s) t \<longrightarrow>
            handleReceiveEvent (BinaryMessage B) s
              = Inr ((log (''no handler for binary event: '' @ t) s)\<lparr>binData := JNull\<rparr>)
          \<and> calls ((log (''no handler for binary event: '' @ t) s)\<lparr>binData := JNull\<rparr>) = calls s)"
proof -
  have nn: "binData s \<noteq> JNull" "binData s \<noteq> JUndefined"
    using assms by auto
  have sub: "''data'' \<in> fst ` set m \<Longrightarrow> set (spread_into [(''data'', JBytes B)] m) \<subseteq> set m"
  proof -
    assume d: "''data'' \<in> fst ` set m"
    have e: "{kv \<in> set [(''data'', JBytes B)]. fst kv \<notin> fst ` set m} = {}" using d by auto
    have a: "set (spread_into [(''data'', JBytes B)] m)
               \<subseteq> {kv \<in> set [(''data'', JBytes B)]. fst kv \<notin> fst ` set m} \<union> set m"
      by (rule set_spread_into) simp
    show ?thesis using a unfolding e by simp
  qed
  have ov: "''data'' \<in> fst ` set m \<Longrightarrow>
      map_of (spread_into [(''data'', JBytes B)] m) ''data'' = map_of (rev m) ''data''
      \<and> map_of (rev m) ''data'' \<noteq> None"
  proof -
    assume "''data'' \<in> fst ` set m"
    then have "''data'' \<in> dom (map_of (rev m))" by (simp add: dom_map_of_conv_image_fst)
    then show ?thesis by (auto simp: map_of_spread_into map_add_def split: option.splits)
  qed
  show ?thesis
    using assms nn sub ov
    by (auto simp: has_property_def call_handler_def Let_def log_def)
qed

text \<open>
  Claim C10, at the target type \<open>__proto__\<close> on a session that has registered
  nothing. The frame \<open>_BIN_META\<close> fills the slot. For the binary frame after it the
  \<open>in\<close> test finds the member inherited from \<open>Object.prototype\<close>, which is not a
  function, so the dispatch throws a \<open>TypeError\<close> before the slot is cleared: in the
  run from the new session through both frames the slot is still filled afterwards.
\<close>

theorem binary_inherited_target:
  "eventHandlers (new_session ''ws://h'' ''Server'' False 250 10000 False :: nat session) ''__proto__'' = None
   \<and> handleReceiveEvent
        (TextMessage ''_BIN_META'' (JObj [(''type'', JStr ''__proto__''), (''metadata'', JObj [])]))
        (new_session ''ws://h'' ''Server'' False 250 10000 False :: nat session)
       = Inr ((new_session ''ws://h'' ''Server'' False 250 10000 False :: nat session)
                \<lparr>binData := JObj [(''type'', JStr ''__proto__''), (''metadata'', JObj [])]\<rparr>)
   \<and> handleReceiveEvent (BinaryMessage [1, 2, 3])
        ((new_session ''ws://h'' ''Server'' False 250 10000 False :: nat session)
           \<lparr>binData := JObj [(''type'', JStr ''__proto__''), (''metadata'', JObj [])]\<rparr>)
       = Inl TypeError
   \<and> binData (run [CallConnect, SocketOpened 0,
                    SocketMessage 0 (TextMessage ''_BIN_META''
                       (JObj [(''type'', JStr ''__proto__''), (''metadata'', JObj [])])),
                    SocketMessage 0 (BinaryMessage [1, 2, 3])]
                 (new_session ''ws://h'' ''Server'' False 250 10000 False :: nat session))
       = JObj [(''type'', JStr ''__proto__''), (''metadata'', JObj [])]"
  by (simp add: run_def exec_def socket_message_def socket_opened_def connect_def new_session_def
      onopen_def set_readyState_def notify_def observe_def Let_def has_property_def
      object_prototype_keys_def call_handler_def inherited_call_throws_def)

section \<open>Properties of the server-initiated disconnect\<close>

lemma disconnect_fields:
  "isConnected (disconnect s) = isConnected s"
  "ws (disconnect s) = None"
  "\<not> autoReconnect (disconnect s)"
  "retryTimeout (disconnect s) = None"
  by (simp_all add: disconnect_def Let_def observe_def ws_close_def split: option.splits)

lemma server_disconnect:
  "handleReceiveEvent (TextMessage ''_DISCONNECT'' d) s
     = Inr (notify (Loading (label s @ '': '' @ to_js_string d) 10000000) (disconnect s))"
  by simp

text \<open>
  Claim C6, on a session with a sink and an observer whose socket 0 has opened, at
  the frame \<open>{type: "_DISCONNECT", data: "server maintenance"}\<close>. The session drops
  its socket (now closing and detached), turns auto-reconnect off, tells the observer
  \<open>false\<close> and shows one \<open>loading\<close> notification with the reason and the duration
  10000000. Its field \<open>isConnected\<close>, set by \<open>onopen\<close>, is still set afterwards:
  \<open>disconnect\<close> does not assign it, and the \<open>onclose\<close> callback that would is detached.
\<close>

theorem server_disconnect_leaves_isConnected:
  "step (SocketMessage 0 (TextMessage ''_DISCONNECT'' (JStr ''server maintenance'')))
       (socket_opened 0 (connect (new_session ''ws://h'' ''Server'' True 250 10000 True :: nat session)))
     = Inr ((socket_opened 0 (connect (new_session ''ws://h'' ''Server'' True 250 10000 True :: nat session)))
         \<lparr>ws := None, autoReconnect := False,
          sockets := [\<lparr>readyState = CLOSING, attached = False, written = []\<rparr>],
          toasts := [Info ''Connecting to Server...'', Success ''Connected to Server!'',
                     Loading ''Server: server maintenance'' 10000000],
          observed := [True, False]\<rparr>)
   \<and> isConnected (socket_opened 0 (connect (new_session ''ws://h'' ''Server'' True 250 10000 True :: nat session)))
   \<and> isConnected (exec (SocketMessage 0 (TextMessage ''_DISCONNECT'' (JStr ''server maintenance'')))
       (socket_opened 0 (connect (new_session ''ws://h'' ''Server'' True 250 10000 True :: nat session))))
   \<and> ws (exec (SocketMessage 0 (TextMessage ''_DISCONNECT'' (JStr ''server maintenance'')))
       (socket_opened 0 (connect (new_session ''ws://h'' ''Server'' True 250 10000 True :: nat session)))) = None"
  by (simp add: exec_def socket_message_def socket_opened_def connect_def new_session_def onopen_def
      set_readyState_def notify_def observe_def Let_def disconnect_def ws_close_def)

text \<open>
  What the disconnect leaves behind. If the only timer that can be pending is the one
  \<open>retryTimeout\<close> refers to, then after the frame \<open>_DISCONNECT\<close> auto-reconnect is off
  and no timer is pending, and this stays so, with no timer created, through every
  run of calls and events that does not call \<open>connect\<close>.
\<close>

lemma quiet_upd [simp]:
  "quiet (s\<lparr>toasts := a\<rparr>) = quiet s"
  "quiet (s\<lparr>observed := b\<rparr>) = quiet s"
  "quiet (s\<lparr>console := c\<rparr>) = quiet s"
  "quiet (s\<lparr>sockets := d\<rparr>) = quiet s"
  "quiet (s\<lparr>calls := e\<rparr>) = quiet s"
  "quiet (s\<lparr>downloads := f\<rparr>) = quiet s"
  "quiet (s\<lparr>binData := g\<rparr>) = quiet s"
  "quiet (s\<lparr>eventHandlers := h\<rparr>) = quiet s"
  "quiet (s\<lparr>initHandlers := i\<rparr>) = quiet s"
  "quiet (s\<lparr>binaryHandler := j\<rparr>) = quiet s"
  "quiet (s\<lparr>isConnected := k\<rparr>) = quiet s"
  "quiet (s\<lparr>currentRetryInterval := l\<rparr>) = quiet s"
  "quiet (s\<lparr>ws := m\<rparr>) = quiet s"
  by (simp_all add: quiet_def no_pending_timer_def)

lemma quiet_basic [simp]:
  "quiet (notify n s) = quiet s" "quiet (observe b s) = quiet s" "quiet (log m s) = quiet s"
  "quiet (ws_close s) = quiet s" "quiet (ws_write f s) = quiet s" "quiet (set_readyState i r s) = quiet s"
  by (simp_all add: notify_def observe_def log_def ws_close_def ws_write_def set_readyState_def
      split: option.splits)

lemma list_all_update: "list_all P xs \<Longrightarrow> P x \<Longrightarrow> list_all P (xs[i := x])"
  by (induction xs arbitrary: i) (auto split: nat.splits)

lemma quiet_disconnect: "no_pending_timer s \<Longrightarrow> quiet (disconnect s)"
  by (auto simp: disconnect_def Let_def quiet_def no_pending_timer_def observe_def ws_close_def
      list_all_update split: option.splits)

lemma disconnect_clears_timer:
  assumes "\<And>h. h < length (timers s) \<Longrightarrow> pending (timers s ! h) \<Longrightarrow> retryTimeout s = Some h"
  shows "quiet (disconnect s)"
proof -
  have "no_pending_timer (disconnect s)"
  proof (cases "retryTimeout s")
    case None
    then have "\<And>h. h < length (timers s) \<Longrightarrow> \<not> pending (timers s ! h)" using assms by fastforce
    then show ?thesis using None
      by (auto simp: disconnect_def Let_def no_pending_timer_def observe_def ws_close_def
          list_all_length split: option.splits)
  next
    case (Some r)
    have "\<And>h. h < length (timers s) \<Longrightarrow> h \<noteq> r \<Longrightarrow> \<not> pending (timers s ! h)"
      using assms Some by fastforce
    then show ?thesis using Some
      by (auto simp: disconnect_def Let_def no_pending_timer_def observe_def ws_close_def
          list_all_length nth_list_update split: option.splits)
  qed
  then show ?thesis
    by (simp add: quiet_def disconnect_def Let_def observe_def ws_close_def split: option.splits)
qed

lemma quiet_onclose: "quiet s \<Longrightarrow> quiet (onclose s) \<and> timers (onclose s) = timers s"
  by (simp add: onclose_def Let_def quiet_def observe_def notify_def no_pending_timer_def)

lemma quiet_onopen: "quiet s \<Longrightarrow> quiet (onopen s)"
  by (simp add: onopen_def Let_def)

lemma quiet_timer_fired: "quiet s \<Longrightarrow> timer_fired h s = s"
  by (auto simp: timer_fired_def quiet_def no_pending_timer_def list_all_length)

lemma quiet_disconnect': "quiet s \<Longrightarrow> quiet (disconnect s)"
  using quiet_disconnect[of s] by (simp add: quiet_def[of s])

lemma quiet_call_handler: "call_handler k a s = Inr s' \<Longrightarrow> quiet s' = quiet s"
  by (auto simp: call_handler_def split: option.splits if_splits)

lemma quiet_handle: "quiet s \<Longrightarrow> handleReceiveEvent m s = Inr s' \<Longrightarrow> quiet s'"
  by (cases m) (auto simp: Let_def quiet_disconnect' dest: quiet_call_handler
      split: if_splits option.splits sum.splits)

lemma quiet_exec:
  assumes "quiet s" "e \<noteq> CallConnect"
  shows "quiet (exec e s)"
proof (cases e)
  case (SocketMessage i m)
  then show ?thesis using assms quiet_handle[of s m]
    by (auto simp: exec_def socket_message_def split: sum.splits)
qed (use assms in \<open>auto simp: exec_def send_def sendBinary_def registerEvent_def deregisterEvent_def
      registerInit_def deregisterInit_def registerBinary_def deregisterBinary_def
      socket_opened_def socket_closed_def socket_error_def onerror_def quiet_onopen quiet_onclose
      quiet_timer_fired quiet_disconnect'\<close>)

lemma timers_call_handler: "call_handler k a s = Inr s' \<Longrightarrow> timers s' = timers s"
  by (auto simp: call_handler_def split: option.splits if_splits)

lemma length_timers_disconnect: "length (timers (disconnect s)) = length (timers s)"
  by (simp add: disconnect_def Let_def observe_def ws_close_def split: option.splits)

lemma length_timers_handle:
  "handleReceiveEvent m s = Inr s' \<Longrightarrow> length (timers s') = length (timers s)"
  by (cases m) (auto simp: Let_def length_timers_disconnect notify_def log_def
      dest: timers_call_handler split: if_splits option.splits sum.splits)

lemma quiet_exec_timers:
  assumes "quiet s" "e \<noteq> CallConnect"
  shows "length (timers (exec e s)) = length (timers s)"
proof (cases e)
  case (SocketMessage i m)
  then show ?thesis using length_timers_handle[of m s]
    by (auto simp: exec_def socket_message_def split: sum.splits)
next
  case (SocketClosed i)
  then show ?thesis using assms quiet_onclose[of "set_readyState i CLOSED s"]
    by (auto simp: exec_def socket_closed_def set_readyState_def)
next
  case (TimerFired h)
  then show ?thesis using assms by (simp add: exec_def quiet_timer_fired)
qed (use assms in \<open>auto simp: exec_def send_def sendBinary_def registerEvent_def deregisterEvent_def
      registerInit_def deregisterInit_def registerBinary_def deregisterBinary_def
      socket_opened_def socket_error_def onerror_def onopen_def Let_def
      notify_def observe_def log_def ws_close_def ws_write_def set_readyState_def
      length_timers_disconnect split: option.splits\<close>)

lemma quiet_run:
  "quiet s \<Longrightarrow> CallConnect \<notin> set es \<Longrightarrow>
   quiet (run es s) \<and> length (timers (run es s)) = length (timers s)"
proof (induction es arbitrary: s)
  case Nil
  then show ?case by (simp add: run_def)
next
  case (Cons e es)
  have e: "e \<noteq> CallConnect" "CallConnect \<notin> set es" using Cons.prems by auto
  have q: "quiet (exec e s)" "length (timers (exec e s)) = length (timers s)"
    using quiet_exec[OF Cons.prems(1) e(1)] quiet_exec_timers[OF Cons.prems(1) e(1)] by simp_all
  have "run (e # es) s = run es (exec e s)" by (simp add: run_def)
  then show ?case using Cons.IH[OF q(1) e(2)] q(2) by simp
qed

lemma server_disconnect_quiet:
  assumes "\<And>h. h < length (timers s) \<Longrightarrow> pending (timers s ! h) \<Longrightarrow> retryTimeout s = Some h"
    and "handleReceiveEvent (TextMessage ''_DISCONNECT'' d) s = Inr s'"
    and "CallConnect \<notin> set es"
  shows "quiet (run es s') \<and> length (timers (run es s')) = length (timers s)"
proof -
  have s': "s' = notify (Loading (label s @ '': '' @ to_js_string d) 10000000) (disconnect s)"
    using assms(2) by simp
  have "quiet s'" using disconnect_clears_timer[OF assms(1)] by (simp add: s')
  moreover have "length (timers s') = length (timers s)"
    by (simp add: s' notify_def length_timers_disconnect)
  ultimately show ?thesis using quiet_run[OF _ assms(3), of s'] by simp
qed

section \<open>Properties of the coordinator\<close>

lemma set_not_patch: "setEvent k \<noteq> patchEvent k"
  by (simp add: setEvent_def patchEvent_def)

lemma setters_count:
  "setters (JObj [(''count'', v)]) = [(''setCount'', Setter ''count''), (''syncCount'', Syncer ''count'')]"
  by (simp add: setters_def upper_def toUpperCase_def char_of_def bit_Suc_0_iff)

lemma replace_count:
  "applyReducer (JObj [(''count'', w)])
     (JObj [(''op'', JStr ''replace''), (''path'', JStr ''/count''), (''value'', v)])
   = Inr (JObj [(''count'', v)])"
  by (simp add: applyReducer_def apply_leaf_def objOps_def banned_key_def unescapePathComponent_def)


text \<open>
  Claim C7. For every state \<open>S\<close>, every queue \<open>q\<close> and every action: if the type of
  the action is \<open>SET(k)\<close>, the reducer returns the data of the action as the new
  state, with an empty effect queue; if it is \<open>PATCH(k)\<close> and the data is a list of
  operations, the reducer returns the result of applying them in order to a deep
  clone of \<open>S\<close>, with an empty effect queue (and throws where applying them throws).
  \<open>dispatch\<close> then commits that state and leaves the session as it was: nothing is
  sent.
\<close>

theorem transition_set_patch:
  "(get_prop action ''type'' = JStr (setEvent k) \<longrightarrow>
      wrappedReducer k r (S, q) action = Inr (get_prop action ''data'', []))
   \<and> (get_prop action ''type'' = JStr (patchEvent k) \<and> get_prop action ''data'' = JArr patch \<longrightarrow>
      wrappedReducer k r (S, q) action
        = (case reduce_patch patch (deepClone S) of Inl e \<Rightarrow> Inl e | Inr newState \<Rightarrow> Inr (newState, [])))
   \<and> (get_prop action ''type'' = JStr (setEvent (key c)) \<longrightarrow>
      dispatch action c = Inr (c\<lparr>state := get_prop action ''data'', effects := []\<rparr>))
   \<and> (get_prop action ''type'' = JStr (patchEvent (key c)) \<and> get_prop action ''data'' = JArr patch
        \<and> reduce_patch patch (deepClone (state c)) = Inr S' \<longrightarrow>
      dispatch action c = Inr (c\<lparr>state := S', effects := []\<rparr>))"
proof -
  have nn: "get_prop action ''type'' = JStr x \<Longrightarrow> action \<noteq> JNull \<and> action \<noteq> JUndefined" for x
    by auto
  show ?thesis
    using nn
    by (auto simp: wrappedReducer_def dispatch_def set_not_patch set_not_patch[symmetric]
        setEvent_def patchEvent_def split: sum.splits)
qed

theorem transition_set_patch_witness:
  "get_prop (JObj [(''type'', JStr ''_SET:counter''), (''data'', JObj [(''count'', JNum 7)])]) ''type''
     = JStr (setEvent ''counter'')
   \<and> wrappedReducer ''counter'' None (JObj [(''count'', JNum 0)], [SendActionEffect JNull])
        (JObj [(''type'', JStr ''_SET:counter''), (''data'', JObj [(''count'', JNum 7)])])
       = Inr (JObj [(''count'', JNum 7)], [])
   \<and> get_prop (JObj [(''type'', JStr ''_PATCH:counter''),
          (''data'', JArr [JObj [(''op'', JStr ''replace''), (''path'', JStr ''/count''), (''value'', JNum 5)]])])
        ''type'' = JStr (patchEvent ''counter'')
   \<and> wrappedReducer ''counter'' None (JObj [(''count'', JNum 0)], [SendActionEffect JNull])
        (JObj [(''type'', JStr ''_PATCH:counter''),
          (''data'', JArr [JObj [(''op'', JStr ''replace''), (''path'', JStr ''/count''), (''value'', JNum 5)]])])
       = Inr (JObj [(''count'', JNum 5)], [])"
  using transition_set_patch
      [where action = "JObj [(''type'', JStr ''_SET:counter''), (''data'', JObj [(''count'', JNum 7)])]"
         and k = "''counter''" and r = None and S = "JObj [(''count'', JNum 0)]"
         and q = "[SendActionEffect JNull]"]
    transition_set_patch
      [where action = "JObj [(''type'', JStr ''_PATCH:counter''),
          (''data'', JArr [JObj [(''op'', JStr ''replace''), (''path'', JStr ''/count''), (''value'', JNum 5)]])]"
         and k = "''counter''"
         and patch = "[JObj [(''op'', JStr ''replace''), (''path'', JStr ''/count''), (''value'', JNum 5)]]"
         and r = None and S = "JObj [(''count'', JNum 0)]" and q = "[SendActionEffect JNull]"]
  by (simp add: setEvent_def patchEvent_def deepClone_def replace_count)

lemma wrappedReducer_patch:
  "reduce_patch patch (deepClone S) = Inr S' \<Longrightarrow>
   wrappedReducer k r (S, q) (JObj [(''type'', JStr (patchEvent k)), (''data'', JArr patch)]) = Inr (S', [])"
  by (simp add: wrappedReducer_def set_not_patch[symmetric])

lemma dispatch_patch:
  "reduce_patch patch (deepClone (state c)) = Inr S' \<Longrightarrow>
   dispatch (JObj [(''type'', JStr (patchEvent (key c))), (''data'', JArr patch)]) c
     = Inr (c\<lparr>state := S', effects := []\<rparr>)"
  by (simp add: dispatch_def wrappedReducer_patch)

lemma send_open:
  "ws s = Some i \<Longrightarrow> i < length (sockets s) \<Longrightarrow> readyState (sockets s ! i) = OPEN \<Longrightarrow>
   send e d s = s\<lparr>sockets := (sockets s)[i := (sockets s ! i)\<lparr>written := written (sockets s ! i) @ [TextFrame e d]\<rparr>]\<rparr>"
  by (simp add: send_def ws_open_def ws_write_def)

lemma call_syncCount:
  assumes "key c = ''counter''"
    and "initialState c = JObj [(''count'', JNum 0)]"
    and "state c = JObj [(''count'', JNum 0)]"
    and "ws (session c) = Some i"
    and "i < length (sockets (session c))"
    and "readyState (sockets (session c) ! i) = OPEN"
  shows "call_accessor ''syncCount'' (JNum 5) c
     = Inr (c\<lparr>session := (session c)
                \<lparr>sockets := (sockets (session c))
                   [i := (sockets (session c) ! i)
                      \<lparr>written := written (sockets (session c) ! i) @
                         [TextFrame ''_PATCH:counter''
                            (JArr [JObj [(''op'', JStr ''replace''), (''path'', JStr ''/count''),
                                         (''value'', JNum 5)]])]\<rparr>]\<rparr>,
              state := JObj [(''count'', JNum 5)],
              effects := []\<rparr>)"
proof -
  let ?p = "[JObj [(''op'', JStr ''replace''), (''path'', JStr ''/count''), (''value'', JNum 5)]]"
  let ?c1 = "sendPatch (JArr ?p) c"
  have c1: "?c1 = c\<lparr>session := (session c)
                \<lparr>sockets := (sockets (session c))
                   [i := (sockets (session c) ! i)
                      \<lparr>written := written (sockets (session c) ! i) @
                         [TextFrame ''_PATCH:counter'' (JArr ?p)]\<rparr>]\<rparr>\<rparr>"
    using assms by (simp add: sendPatch_def on_session_def send_open patchEvent_def)
  have r: "reduce_patch ?p (deepClone (state ?c1)) = Inr (JObj [(''count'', JNum 5)])"
    using assms by (simp add: c1 deepClone_def replace_count)
  have k: "key ?c1 = key c" by (simp add: sendPatch_def on_session_def)
  have "call_accessor ''syncCount'' (JNum 5) c = patchState (JArr ?p) ?c1"
    using assms by (simp add: call_accessor_def setters_count replace_patch_def)
  also have "\<dots> = Inr (?c1\<lparr>state := JObj [(''count'', JNum 5)], effects := []\<rparr>)"
    unfolding patchState_def by (rule dispatch_patch[OF r])
  finally show ?thesis by (simp add: c1)
qed

text \<open>
  Claim C2, with the frame the code writes. For a coordinator of the key \<open>counter\<close>
  with initial and current state \<open>{count: 0}\<close> whose session has an open current
  socket, \<open>syncCount(5)\<close> makes the state \<open>{count: 5}\<close> and writes exactly one frame
  to that socket: \<open>{type: "_PATCH:counter", data: [{op: "replace", path: "/count",
  value: 5}]}\<close>. The operation is named by the member \<open>op\<close>.
\<close>

theorem syncCount_sends_patch:
  assumes "key c = ''counter''"
    and "initialState c = JObj [(''count'', JNum 0)]"
    and "state c = JObj [(''count'', JNum 0)]"
    and "ws (session c) = Some i"
    and "i < length (sockets (session c))"
    and "readyState (sockets (session c) ! i) = OPEN"
  shows "call_accessor ''syncCount'' (JNum 5) c
     = Inr (c\<lparr>session := (session c)
                \<lparr>sockets := (sockets (session c))
                   [i := (sockets (session c) ! i)
                      \<lparr>written := written (sockets (session c) ! i) @
                         [TextFrame ''_PATCH:counter''
                            (JArr [JObj [(''op'', JStr ''replace''), (''path'', JStr ''/count''),
                                         (''value'', JNum 5)]])]\<rparr>]\<rparr>,
              state := JObj [(''count'', JNum 5)],
              effects := []\<rparr>)"
  using assms by (rule call_syncCount)

lemma connected_session_eq:
  "connected_session =
     \<lparr> url = ''ws://h'', label = ''Server'', ws = Some 0, isConnected = True, onConnectionChange = False,
       minRetryInterval = 250, maxRetryInterval = 10000, currentRetryInterval = 250,
       toast = True, eventHandlers = Map.empty, initHandlers = Map.empty,
       binaryHandler = None, binData = JNull, retryTimeout = None, autoReconnect = True,
       sockets = [\<lparr>readyState = OPEN, attached = True, written = []\<rparr>], timers = [],
       toasts = [Info ''Connecting to Server...'', Success ''Connected to Server!''],
       observed = [], calls = [], downloads = [], console = [] \<rparr>"
  by (simp add: connected_session_def socket_opened_def connect_def new_session_def onopen_def
      set_readyState_def notify_def observe_def Let_def)

lemma counter_fields:
  "key counter = ''counter''" "initialState counter = JObj [(''count'', JNum 0)]"
  "state counter = JObj [(''count'', JNum 0)]" "ws (session counter) = Some 0"
  "sockets (session counter) = [\<lparr>readyState = OPEN, attached = True, written = []\<rparr>]"
  "registeredState counter = JObj [(''count'', JNum 0)]"
  by (simp_all add: counter_def createSynced_def connected_session_eq)

theorem syncCount_sends_patch_witness:
  "key counter = ''counter'' \<and> initialState counter = JObj [(''count'', JNum 0)]
   \<and> state counter = JObj [(''count'', JNum 0)] \<and> ws (session counter) = Some 0
   \<and> 0 < length (sockets (session counter)) \<and> readyState (sockets (session counter) ! 0) = OPEN
   \<and> state_after (call_accessor ''syncCount'' (JNum 5) counter) = Some (JObj [(''count'', JNum 5)])
   \<and> sent_frames (call_accessor ''syncCount'' (JNum 5) counter)
       = Some [TextFrame ''_PATCH:counter''
                 (JArr [JObj [(''op'', JStr ''replace''), (''path'', JStr ''/count''), (''value'', JNum 5)]])]"
  using syncCount_sends_patch[of counter 0]
  by (simp add: counter_fields state_after_def sent_frames_def transport_writes_def)

text \<open>
  Claim C2 as stated fails: the frame written by \<open>syncCount(5)\<close> is not the one whose
  patch entry has the member \<open>operation\<close>.
\<close>

theorem syncCount_sends_patch_counterexample:
  "sent_frames (call_accessor ''syncCount'' (JNum 5) counter)
     \<noteq> Some [TextFrame ''_PATCH:counter''
                (JArr [JObj [(''operation'', JStr ''replace''), (''path'', JStr ''/count''),
                             (''value'', JNum 5)]])]"
  using call_syncCount[of counter 0]
  by (simp add: counter_fields sent_frames_def transport_writes_def)

lemma activate_counter:
  "activate counter = Inr (counter\<lparr>session := (session counter)
       \<lparr>eventHandlers := [''_GET:counter'' \<mapsto> GetHandler, ''_SET:counter'' \<mapsto> SetHandler,
                          ''_PATCH:counter'' \<mapsto> PatchHandler, ''_ACTION:counter'' \<mapsto> ActionHandler]\<rparr>\<rparr>)"
  by (simp add: activate_def bind_session_def registerEvent_def has_property_def object_prototype_keys_def
      counter_def createSynced_def connected_session_eq getEvent_def setEvent_def patchEvent_def
      actionEvent_def)

lemma run_get_handler:
  "run_handler GetHandler arg c = Inr (sendState (registeredState c) c)"
  by simp

lemma run_effects_registeredState:
  "run_effects fs c = Inr c' \<Longrightarrow> registeredState c' = registeredState c"
  by (induction fs c rule: run_effects.induct)
     (auto simp: sendPatch_def sendAction_def on_session_def split: if_splits sum.splits)

lemma dispatch_registeredState:
  "dispatch action c = Inr c' \<Longrightarrow> registeredState c' = registeredState c"
  by (auto simp: dispatch_def split: sum.splits dest!: run_effects_registeredState)

text \<open>
  Claim C8, on the coordinator of the key \<open>counter\<close> that was activated with the
  state \<open>{count: 0}\<close> and then brought to \<open>{count: 5}\<close> by \<open>syncCount(5)\<close>. The
  frame \<open>{type: "_GET:counter", data: {}}\<close> leaves the state \<open>{count: 5}\<close> and is
  answered by one frame \<open>_SET:counter\<close>, but that frame carries \<open>{count: 0}\<close>: the
  handler registered at activation still holds the state of that render.
\<close>

theorem get_replies_with_registered_state:
  "state_after (perform [activate, call_accessor ''syncCount'' (JNum 5),
                         receive 0 (TextMessage ''_GET:counter'' (JObj []))] counter)
     = Some (JObj [(''count'', JNum 5)])
   \<and> sent_frames (perform [activate, call_accessor ''syncCount'' (JNum 5),
                         receive 0 (TextMessage ''_GET:counter'' (JObj []))] counter)
     = Some [TextFrame ''_PATCH:counter''
               (JArr [JObj [(''op'', JStr ''replace''), (''path'', JStr ''/count''), (''value'', JNum 5)]]),
             TextFrame ''_SET:counter'' (JObj [(''count'', JNum 0)])]"
proof -
  let ?c1 = "counter\<lparr>session := (session counter)
       \<lparr>eventHandlers := [''_GET:counter'' \<mapsto> GetHandler, ''_SET:counter'' \<mapsto> SetHandler,
                          ''_PATCH:counter'' \<mapsto> PatchHandler, ''_ACTION:counter'' \<mapsto> ActionHandler]\<rparr>\<rparr>"
  have f: "key ?c1 = ''counter''" "initialState ?c1 = JObj [(''count'', JNum 0)]"
    "state ?c1 = JObj [(''count'', JNum 0)]" "ws (session ?c1) = Some 0"
    "0 < length (sockets (session ?c1))" "readyState (sockets (session ?c1) ! 0) = OPEN"
    by (simp_all add: counter_fields)
  note c2 = call_syncCount[OF f]
  show ?thesis
    by (simp add: activate_counter c2 counter_fields receive_def socket_message_def
        has_property_def call_handler_def sendState_def on_session_def send_def ws_open_def ws_write_def
        setEvent_def state_after_def sent_frames_def transport_writes_def)
qed

end
